theory Spec2Isabelle
  imports Complex_Main "HOL-Library.Sublist" "HOL-Library.Log_Nat"
begin

section \<open>Conventions\<close>

text \<open>
  \<^item> A Python \<^verbatim>\<open>float\<close> is a binary64 number, with the rounding of its arithmetic (type
    \<open>pyfloat\<close>, below). The clock readings \<^verbatim>\<open>time.time()\<close> of the notifier and the duration
    handed to it are the real numbers that these floats are: a reading is compared with
    another and subtracted from it exactly.
  \<^item> A \<^verbatim>\<open>datetime\<close> is the number of microseconds since a fixed origin, a \<^verbatim>\<open>timedelta\<close>
    a number of microseconds; both are \<^typ>\<open>int\<close>, as \<^verbatim>\<open>datetime\<close> arithmetic is exact.
  \<^item> A \<^verbatim>\<open>str\<close> is a \<^typ>\<open>string\<close>: the bytes of its UTF-8 encoding.
  \<^item> Every reading of the clock (\<^verbatim>\<open>time.time()\<close>, \<^verbatim>\<open>datetime.now()\<close>, \<^verbatim>\<open>date.today()\<close>)
    is an explicit argument \<open>now\<close> or \<open>today\<close> of the function that reads it.
  \<^item> Where the behaviour of Python depends on the version of the interpreter (the case
    tables of \<^verbatim>\<open>str.lower\<close>, the summation of floats by \<^verbatim>\<open>sum\<close>), the model is of
    CPython 3.11.
  \<^item> A leading underscore of a Python name is dropped.
\<close>

section \<open>Python numbers\<close>

text \<open>
  A Python \<^verbatim>\<open>float\<close> is a binary64 number of IEEE 754. The function \<open>fl\<close> rounds a rational
  number to the nearest such number, a tie to the one with the even significand: the
  significand has 53 bits, and below 2 to the power -1022 the spacing stays that of the
  smallest normal numbers (gradual underflow). The exponent has no upper limit in the model: the
  functions modelled here compute with scores, percentages and durations, far below the
  largest binary64 number, and the values \<^verbatim>\<open>inf\<close> and \<^verbatim>\<open>nan\<close> and the negative zero are left
  out. A \<open>pyfloat\<close> is a number in the range of \<open>fl\<close>, and \<open>exact_value\<close> is the rational
  number that it is.
\<close>

definition pow2 :: "int \<Rightarrow> rat" where
  "pow2 e = (if 0 \<le> e then 2 ^ nat e else 1 / 2 ^ nat (- e))"

definition round_half_even :: "rat \<Rightarrow> int" where
  "round_half_even x =
     (let f = \<lfloor>x\<rfloor>; d = x - of_int f
      in if d < 1 / 2 then f else if 1 / 2 < d then f + 1
         else if even f then f else f + 1)"

text \<open>
  The binary exponent of a rational number other than 0: the \<open>e\<close> with
  \<open>pow2 e \<le> \<bar>x\<bar>\<close> and \<open>\<bar>x\<bar> < pow2 (e + 1)\<close>, from the bit lengths of the numerator and the
  denominator.
\<close>

definition fl_exponent :: "rat \<Rightarrow> int" where
  "fl_exponent x =
     (case quotient_of x of
        (p, q) \<Rightarrow> let k = bitlen \<bar>p\<bar> - bitlen q in if \<bar>x\<bar> < pow2 k then k - 1 else k)"

definition fl :: "rat \<Rightarrow> rat" where
  "fl x =
     (if x = 0 then 0
      else let e = max (fl_exponent x) (- 1022); u = pow2 (e - 52)
           in of_int (round_half_even (x / u)) * u)"

typedef pyfloat = "range fl"
  morphisms exact_value Abs_pyfloat
  by blast

text \<open>
  \<open>float_of x\<close> is the float nearest to \<open>x\<close>: the value of a float literal, of the
  conversion of an \<^verbatim>\<open>int\<close>, and of every arithmetic operation on the exact result.
\<close>

definition float_of :: "rat \<Rightarrow> pyfloat" where
  "float_of x = Abs_pyfloat (fl x)"

definition fadd :: "pyfloat \<Rightarrow> pyfloat \<Rightarrow> pyfloat" where
  "fadd a b = float_of (exact_value a + exact_value b)"

definition fmul :: "pyfloat \<Rightarrow> pyfloat \<Rightarrow> pyfloat" where
  "fmul a b = float_of (exact_value a * exact_value b)"

text \<open>The divisor is not 0 where the modelled code divides: each division is guarded.\<close>

definition fdiv :: "pyfloat \<Rightarrow> pyfloat \<Rightarrow> pyfloat" where
  "fdiv a b = float_of (exact_value a / exact_value b)"

text \<open>
  A number read from JSON or computed is an \<^verbatim>\<open>int\<close> or a \<^verbatim>\<open>float\<close>. The operators: \<^verbatim>\<open>+\<close> of
  two ints is exact, and converts an int to float when the other operand is a float;
  \<^verbatim>\<open>/\<close> of two ints is the float nearest to the quotient; the built-in \<^verbatim>\<open>sum\<close> adds from
  the left, starting with the int 0 (as CPython does up to version 3.11);
  \<^verbatim>\<open>round(x, 1)\<close> of an int is the int, and of a float the float nearest to the decimal
  number with one decimal place that is nearest to its exact value, a tie to the even
  digit.
\<close>

datatype pynum = PyInt int | PyFloat pyfloat

fun to_float :: "pynum \<Rightarrow> pyfloat" where
  "to_float (PyInt n) = float_of (of_int n)"
| "to_float (PyFloat x) = x"

fun num_value :: "pynum \<Rightarrow> rat" where
  "num_value (PyInt n) = of_int n"
| "num_value (PyFloat x) = exact_value x"

fun py_add :: "pynum \<Rightarrow> pynum \<Rightarrow> pynum" where
  "py_add (PyInt a) (PyInt b) = PyInt (a + b)"
| "py_add x y = PyFloat (fadd (to_float x) (to_float y))"

fun py_truediv :: "pynum \<Rightarrow> pynum \<Rightarrow> pyfloat" where
  "py_truediv (PyInt a) (PyInt b) = float_of (of_int a / of_int b)"
| "py_truediv x y = fdiv (to_float x) (to_float y)"

definition py_sum :: "pynum list \<Rightarrow> pynum" where
  "py_sum xs = foldl py_add (PyInt 0) xs"

fun py_round1 :: "pynum \<Rightarrow> pynum" where
  "py_round1 (PyInt n) = PyInt n"
| "py_round1 (PyFloat x) =
     PyFloat (float_of (of_int (round_half_even (exact_value x * 10)) / 10))"

section \<open>Data model (\<^verbatim>\<open>focus/models.py\<close>, \<^verbatim>\<open>focus/config.py\<close>)\<close>

datatype FocusStatus = ON_TASK | OFF_TASK | BREAK | UNKNOWN

type_synonym datetime = int
type_synonym timedelta = int

definition timedelta_seconds :: "int \<Rightarrow> timedelta" where
  "timedelta_seconds s = s * 1000000"

definition timedelta_minutes :: "int \<Rightarrow> timedelta" where
  "timedelta_minutes m = m * 60000000"

text \<open>
  \<^verbatim>\<open>timedelta.total_seconds()\<close> divides the microseconds by \<^verbatim>\<open>10**6\<close>, ints both: the result
  is the float nearest to the quotient. \<open>total_seconds\<close> is that float as a real number.
\<close>

definition total_seconds_float :: "timedelta \<Rightarrow> pyfloat" where
  "total_seconds_float d = py_truediv (PyInt d) (PyInt 1000000)"

definition total_seconds :: "timedelta \<Rightarrow> real" where
  "total_seconds d = real_of_rat (exact_value (total_seconds_float d))"

text \<open>
  \<^verbatim>\<open>ActivityRecord\<close> has the fields \<^verbatim>\<open>timestamp\<close>, \<^verbatim>\<open>activity_description\<close>, \<^verbatim>\<open>status\<close>
  and \<^verbatim>\<open>confidence\<close>; \<^verbatim>\<open>AnalysisResult\<close> has the same four and \<^verbatim>\<open>reasoning\<close> and
  \<^verbatim>\<open>suggestion\<close>. The second record is written as an extension of the first so that both
  keep the field names of the source.
\<close>

record ActivityRecord =
  timestamp :: datetime
  activity_description :: string
  status :: FocusStatus
  confidence :: real

record AnalysisResult = ActivityRecord +
  reasoning :: string
  suggestion :: "string option"

definition from_analysis :: "AnalysisResult \<Rightarrow> ActivityRecord" where
  "from_analysis result =
     \<lparr>timestamp = timestamp result,
      activity_description = activity_description result,
      status = status result,
      confidence = confidence result\<rparr>"

record TimeBudget =
  activity_pattern :: string
  max_minutes :: int
  per_minutes :: int

record Config =
  analysis_interval :: int
  notification_cooldown :: int
  escalation_delay :: int
  history_window :: int
  max_history_entries :: int

definition default_config :: Config where
  "default_config =
     \<lparr>analysis_interval = 30,
      notification_cooldown = 120,
      escalation_delay = 120,
      history_window = 1800,
      max_history_entries = 60\<rparr>"

section \<open>Python primitives\<close>

text \<open>\<^verbatim>\<open>str(n)\<close> of an integer: decimal digits, a minus sign for a negative number.\<close>

fun str_nat :: "nat \<Rightarrow> string" where
  "str_nat n =
     (if n < 10 then [''0123456789'' ! n]
      else str_nat (n div 10) @ [''0123456789'' ! (n mod 10)])"

definition str_int :: "int \<Rightarrow> string" where
  "str_int i = (if i < 0 then CHR ''-'' # str_nat (nat (- i)) else str_nat (nat i))"

text \<open>\<^verbatim>\<open>int(x)\<close> of a float truncates towards zero.\<close>

definition py_int :: "real \<Rightarrow> int" where
  "py_int x = (if 0 \<le> x then \<lfloor>x\<rfloor> else \<lceil>x\<rceil>)"

text \<open>\<^verbatim>\<open>s or d\<close> for an optional string \<open>s\<close>: \<^verbatim>\<open>None\<close> and the empty string are falsy.\<close>

definition py_or :: "string option \<Rightarrow> string \<Rightarrow> string" where
  "py_or s d = (case s of None \<Rightarrow> d | Some t \<Rightarrow> if t = [] then d else t)"

section \<open>Notifier (\<^verbatim>\<open>focus/notifier.py\<close>)\<close>

text \<open>
  The state of a \<^verbatim>\<open>Notifier\<close> that the decision reads and writes. The transport
  (\<^verbatim>\<open>_send\<close> and below: \<^verbatim>\<open>osascript\<close> or the banner binary) is the dispatch sink: a call
  \<^verbatim>\<open>_send(title, message, sound)\<close> is modelled as the value \<open>Notification\<close> handed to it.
\<close>

record Notifier =
  last_notification_time :: real
  escalation_start :: "real option"

record Notification =
  title :: string
  message :: string
  sound :: bool

definition Notifier_init :: Notifier where
  "Notifier_init = \<lparr>last_notification_time = 0, escalation_start = None\<rparr>"

definition gentle_fallback :: "AnalysisResult \<Rightarrow> string" where
  "gentle_fallback result =
     ''Looks like you're '' @ activity_description result @ ''. Time to refocus?''"

definition send_gentle :: "AnalysisResult \<Rightarrow> Notification" where
  "send_gentle result =
     \<lparr>title = ''Focus Reminder'',
      message = py_or (suggestion result) (gentle_fallback result),
      sound = False\<rparr>"

definition urgent_fallback :: "AnalysisResult \<Rightarrow> int \<Rightarrow> string" where
  "urgent_fallback result minutes =
     ''You've been off-task for '' @ str_int minutes @ ''+ minutes (''
       @ activity_description result @ ''). Get back to work!''"

definition send_urgent :: "AnalysisResult \<Rightarrow> real \<Rightarrow> Notification" where
  "send_urgent result off_task_duration =
     (let minutes = py_int (off_task_duration / 60)
      in \<lparr>title = [CHR 0xE2, CHR 0x9A, CHR 0xA0] @ '' Focus Alert'',
          message = py_or (suggestion result) (urgent_fallback result minutes),
          sound = True\<rparr>)"

text \<open>
  One decide cycle. The result is the new state and the notification dispatched in this
  cycle, if any.
\<close>

definition notify_if_needed ::
  "Config \<Rightarrow> real \<Rightarrow> Notifier \<Rightarrow> AnalysisResult \<Rightarrow> real \<Rightarrow> Notifier \<times> Notification option" where
  "notify_if_needed config now self result off_task_duration =
     (if status result \<noteq> OFF_TASK then
        (if escalation_start self \<noteq> None
         then (self\<lparr>escalation_start := None\<rparr>, None)
         else (self, None))
      else
        let time_since_last = now - last_notification_time self in
        if time_since_last < real_of_int (notification_cooldown config) then (self, None)
        else
          let self1 = (if escalation_start self = None
                       then self\<lparr>escalation_start := Some now\<rparr> else self);
              escalation_time = now - the (escalation_start self1);
              is_escalated = (real_of_int (escalation_delay config) \<le> escalation_time);
              sent = (if is_escalated then send_urgent result off_task_duration
                      else send_gentle result)
          in (self1\<lparr>last_notification_time := now\<rparr>, Some sent))"

text \<open>
  A sequence of decide cycles, each given by the clock reading, the classification and
  the off-task duration handed to \<open>notify_if_needed\<close>. The result is the final state and
  the dispatched notifications in order, each with the time of its dispatch.
\<close>

fun run_cycles ::
  "Config \<Rightarrow> Notifier \<Rightarrow> (real \<times> AnalysisResult \<times> real) list
     \<Rightarrow> Notifier \<times> (real \<times> Notification) list" where
  "run_cycles config self [] = (self, [])"
| "run_cycles config self ((now, result, d) # cs) =
     (case notify_if_needed config now self result d of
        (self', None) \<Rightarrow> run_cycles config self' cs
      | (self', Some n) \<Rightarrow>
          (case run_cycles config self' cs of (self'', ns) \<Rightarrow> (self'', (now, n) # ns)))"

section \<open>ActivityTracker (\<^verbatim>\<open>focus/activity.py\<close>)\<close>

text \<open>
  Errors are values. The only exception the modelled code meets is \<^verbatim>\<open>OSError\<close>, raised by
  a file operation that the operating system refuses; whether it does is an argument
  (\<open>True\<close>: the operation succeeds) of the function that performs the operation.
\<close>

datatype py_error = OSError

text \<open>
  The tracker's in-memory history and the persistent log. A line of the log is the record
  that \<^verbatim>\<open>to_json_line\<close> encodes.
\<close>

record ActivityTracker =
  history :: "ActivityRecord list"
  log_file :: "ActivityRecord list"

definition ActivityTracker_init :: ActivityTracker where
  "ActivityTracker_init = \<lparr>history = [], log_file = []\<rparr>"

text \<open>The slice \<^verbatim>\<open>xs[k:]\<close>: a negative \<open>k\<close> counts from the end, and \<^verbatim>\<open>-0\<close> is \<open>0\<close>.\<close>

definition slice_from :: "int \<Rightarrow> 'a list \<Rightarrow> 'a list" where
  "slice_from k xs =
     (if k < 0 then drop (nat (max 0 (int (length xs) + k))) xs else drop (nat k) xs)"

definition prune_history :: "Config \<Rightarrow> datetime \<Rightarrow> ActivityRecord list \<Rightarrow> ActivityRecord list" where
  "prune_history config now hist =
     (let cutoff = now - timedelta_seconds (history_window config);
          hist1 = filter (\<lambda>r. cutoff \<le> timestamp r) hist
      in if max_history_entries config < int (length hist1)
         then slice_from (- max_history_entries config) hist1
         else hist1)"

definition open_append :: "bool \<Rightarrow> 'a list \<Rightarrow> 'a \<Rightarrow> py_error + 'a list" where
  "open_append ok file line = (if ok then Inr (file @ [line]) else Inl OSError)"

definition append_log :: "bool \<Rightarrow> ActivityTracker \<Rightarrow> ActivityRecord \<Rightarrow> py_error + ActivityTracker" where
  "append_log ok self r =
     (case open_append ok (log_file self) r of
        Inr file \<Rightarrow> Inr (self\<lparr>log_file := file\<rparr>)
      | Inl OSError \<Rightarrow> Inr self)"

text \<open>\<^verbatim>\<open>ActivityTracker.record\<close>; \<open>now\<close> is the clock reading of \<^verbatim>\<open>_prune_history\<close>.\<close>

definition tracker_record ::
  "Config \<Rightarrow> datetime \<Rightarrow> bool \<Rightarrow> ActivityTracker \<Rightarrow> AnalysisResult \<Rightarrow> py_error + ActivityTracker" where
  "tracker_record config now ok self result =
     (let r = from_analysis result;
          self1 = self\<lparr>history := history self @ [r]\<rparr>;
          self2 = self1\<lparr>history := prune_history config now (history self1)\<rparr>
      in append_log ok self2 r)"

text \<open>
  A sequence of \<^verbatim>\<open>record\<close> calls, each with its clock reading, the outcome of its log
  write and the classification. An error of one call ends the sequence.
\<close>

fun record_all ::
  "Config \<Rightarrow> ActivityTracker \<Rightarrow> (datetime \<times> bool \<times> AnalysisResult) list
     \<Rightarrow> py_error + ActivityTracker" where
  "record_all config self [] = Inr self"
| "record_all config self ((now, ok, result) # cs) =
     (case tracker_record config now ok self result of
        Inl e \<Rightarrow> Inl e
      | Inr self' \<Rightarrow> record_all config self' cs)"

text \<open>
  The loop of \<^verbatim>\<open>get_current_streak\<close> over \<^verbatim>\<open>reversed(self.history[:-1])\<close>: it leaves at the
  first record of another status.
\<close>

fun streak_scan :: "FocusStatus \<Rightarrow> datetime \<Rightarrow> ActivityRecord list \<Rightarrow> datetime" where
  "streak_scan current_status streak_start [] = streak_start"
| "streak_scan current_status streak_start (r # rs) =
     (if status r \<noteq> current_status then streak_start
      else streak_scan current_status (timestamp r) rs)"

definition get_current_streak :: "datetime \<Rightarrow> ActivityRecord list \<Rightarrow> FocusStatus \<times> real" where
  "get_current_streak now hist =
     (if hist = [] then (UNKNOWN, 0)
      else
        let current_status = status (last hist);
            streak_start =
              streak_scan current_status (timestamp (last hist)) (rev (butlast hist));
            duration = total_seconds (now - streak_start)
        in (current_status, duration))"

definition get_off_task_duration :: "datetime \<Rightarrow> ActivityRecord list \<Rightarrow> real" where
  "get_off_task_duration now hist =
     (case get_current_streak now hist of
        (st, duration) \<Rightarrow> if st = OFF_TASK then duration else 0)"

text \<open>
  \<^verbatim>\<open>str.lower\<close>. A \<^verbatim>\<open>str\<close> is a sequence of Unicode code points, held here as the bytes of
  its UTF-8 encoding; \<open>code_points\<close> decodes them. The tables are those of Unicode 14.0, the
  version of CPython 3.11: \<open>lower_runs\<close> lists the code points whose lower case is another
  single code point, as runs \<open>(first, last, stride, lower case of first)\<close>;
  \<open>case_ignorable_runs\<close> lists the case-ignorable code points and \<open>cased_runs\<close> the cased
  code points that are not case-ignorable, as runs \<open>(first, last)\<close>. The runs are in
  ascending order.
\<close>

fun utf8_decode :: "nat list \<Rightarrow> nat list" where
  "utf8_decode [] = []"
| "utf8_decode (b # bs) =
     (if b < 128 then b # utf8_decode bs
      else if b < 224 then
        (case bs of
           b1 # r \<Rightarrow> ((b mod 32) * 64 + b1 mod 64) # utf8_decode r
         | _ \<Rightarrow> [b])
      else if b < 240 then
        (case bs of
           b1 # b2 # r \<Rightarrow> ((b mod 16) * 4096 + (b1 mod 64) * 64 + b2 mod 64) # utf8_decode r
         | _ \<Rightarrow> [b])
      else
        (case bs of
           b1 # b2 # b3 # r \<Rightarrow>
             ((b mod 8) * 262144 + (b1 mod 64) * 4096 + (b2 mod 64) * 64 + b3 mod 64)
               # utf8_decode r
         | _ \<Rightarrow> [b]))"

definition code_points :: "string \<Rightarrow> nat list" where
  "code_points s = utf8_decode (map of_char s)"

definition lower_runs :: "(nat \<times> nat \<times> nat \<times> nat) list" where
  "lower_runs =
     [
      (65, 90, 1, 97), (192, 214, 1, 224), (216, 222, 1, 248),
      (256, 302, 2, 257), (306, 310, 2, 307), (313, 327, 2, 314),
      (330, 374, 2, 331), (376, 376, 1, 255), (377, 381, 2, 378),
      (385, 385, 1, 595), (386, 388, 2, 387), (390, 390, 1, 596),
      (391, 391, 1, 392), (393, 394, 1, 598), (395, 395, 1, 396),
      (398, 398, 1, 477), (399, 399, 1, 601), (400, 400, 1, 603),
      (401, 401, 1, 402), (403, 403, 1, 608), (404, 404, 1, 611),
      (406, 406, 1, 617), (407, 407, 1, 616), (408, 408, 1, 409),
      (412, 412, 1, 623), (413, 413, 1, 626), (415, 415, 1, 629),
      (416, 420, 2, 417), (422, 422, 1, 640), (423, 423, 1, 424),
      (425, 425, 1, 643), (428, 428, 1, 429), (430, 430, 1, 648),
      (431, 431, 1, 432), (433, 434, 1, 650), (435, 437, 2, 436),
      (439, 439, 1, 658), (440, 440, 1, 441), (444, 444, 1, 445),
      (452, 452, 1, 454), (453, 453, 1, 454), (455, 455, 1, 457),
      (456, 456, 1, 457), (458, 458, 1, 460), (459, 475, 2, 460),
      (478, 494, 2, 479), (497, 497, 1, 499), (498, 500, 2, 499),
      (502, 502, 1, 405), (503, 503, 1, 447), (504, 542, 2, 505),
      (544, 544, 1, 414), (546, 562, 2, 547), (570, 570, 1, 11365),
      (571, 571, 1, 572), (573, 573, 1, 410), (574, 574, 1, 11366),
      (577, 577, 1, 578), (579, 579, 1, 384), (580, 580, 1, 649),
      (581, 581, 1, 652), (582, 590, 2, 583), (880, 882, 2, 881),
      (886, 886, 1, 887), (895, 895, 1, 1011), (902, 902, 1, 940),
      (904, 906, 1, 941), (908, 908, 1, 972), (910, 911, 1, 973),
      (913, 929, 1, 945), (931, 939, 1, 963), (975, 975, 1, 983),
      (984, 1006, 2, 985), (1012, 1012, 1, 952), (1015, 1015, 1, 1016),
      (1017, 1017, 1, 1010), (1018, 1018, 1, 1019), (1021, 1023, 1, 891),
      (1024, 1039, 1, 1104), (1040, 1071, 1, 1072), (1120, 1152, 2, 1121),
      (1162, 1214, 2, 1163), (1216, 1216, 1, 1231), (1217, 1229, 2, 1218),
      (1232, 1326, 2, 1233), (1329, 1366, 1, 1377), (4256, 4293, 1, 11520),
      (4295, 4295, 1, 11559), (4301, 4301, 1, 11565), (5024, 5103, 1, 43888),
      (5104, 5109, 1, 5112), (7312, 7354, 1, 4304), (7357, 7359, 1, 4349),
      (7680, 7828, 2, 7681), (7838, 7838, 1, 223), (7840, 7934, 2, 7841),
      (7944, 7951, 1, 7936), (7960, 7965, 1, 7952), (7976, 7983, 1, 7968),
      (7992, 7999, 1, 7984), (8008, 8013, 1, 8000), (8025, 8031, 2, 8017),
      (8040, 8047, 1, 8032), (8072, 8079, 1, 8064), (8088, 8095, 1, 8080),
      (8104, 8111, 1, 8096), (8120, 8121, 1, 8112), (8122, 8123, 1, 8048),
      (8124, 8124, 1, 8115), (8136, 8139, 1, 8050), (8140, 8140, 1, 8131),
      (8152, 8153, 1, 8144), (8154, 8155, 1, 8054), (8168, 8169, 1, 8160),
      (8170, 8171, 1, 8058), (8172, 8172, 1, 8165), (8184, 8185, 1, 8056),
      (8186, 8187, 1, 8060), (8188, 8188, 1, 8179), (8486, 8486, 1, 969),
      (8490, 8490, 1, 107), (8491, 8491, 1, 229), (8498, 8498, 1, 8526),
      (8544, 8559, 1, 8560), (8579, 8579, 1, 8580), (9398, 9423, 1, 9424),
      (11264, 11311, 1, 11312), (11360, 11360, 1, 11361), (11362, 11362, 1, 619),
      (11363, 11363, 1, 7549), (11364, 11364, 1, 637), (11367, 11371, 2, 11368),
      (11373, 11373, 1, 593), (11374, 11374, 1, 625), (11375, 11375, 1, 592),
      (11376, 11376, 1, 594), (11378, 11378, 1, 11379), (11381, 11381, 1, 11382),
      (11390, 11391, 1, 575), (11392, 11490, 2, 11393), (11499, 11501, 2, 11500),
      (11506, 11506, 1, 11507), (42560, 42604, 2, 42561), (42624, 42650, 2, 42625),
      (42786, 42798, 2, 42787), (42802, 42862, 2, 42803), (42873, 42875, 2, 42874),
      (42877, 42877, 1, 7545), (42878, 42886, 2, 42879), (42891, 42891, 1, 42892),
      (42893, 42893, 1, 613), (42896, 42898, 2, 42897), (42902, 42920, 2, 42903),
      (42922, 42922, 1, 614), (42923, 42923, 1, 604), (42924, 42924, 1, 609),
      (42925, 42925, 1, 620), (42926, 42926, 1, 618), (42928, 42928, 1, 670),
      (42929, 42929, 1, 647), (42930, 42930, 1, 669), (42931, 42931, 1, 43859),
      (42932, 42946, 2, 42933), (42948, 42948, 1, 42900), (42949, 42949, 1, 642),
      (42950, 42950, 1, 7566), (42951, 42953, 2, 42952), (42960, 42960, 1, 42961),
      (42966, 42968, 2, 42967), (42997, 42997, 1, 42998), (65313, 65338, 1, 65345),
      (66560, 66599, 1, 66600), (66736, 66771, 1, 66776), (66928, 66938, 1, 66967),
      (66940, 66954, 1, 66979), (66956, 66962, 1, 66995), (66964, 66965, 1, 67003),
      (68736, 68786, 1, 68800), (71840, 71871, 1, 71872), (93760, 93791, 1, 93792),
      (125184, 125217, 1, 125218)
     ]"

definition case_ignorable_runs :: "(nat \<times> nat) list" where
  "case_ignorable_runs =
     [
      (39, 39), (46, 46), (58, 58), (94, 94), (96, 96),
      (168, 168), (173, 173), (175, 175), (180, 180), (183, 184),
      (688, 879), (884, 885), (890, 890), (900, 901), (903, 903),
      (1155, 1161), (1369, 1369), (1375, 1375), (1425, 1469), (1471, 1471),
      (1473, 1474), (1476, 1477), (1479, 1479), (1524, 1524), (1536, 1541),
      (1552, 1562), (1564, 1564), (1600, 1600), (1611, 1631), (1648, 1648),
      (1750, 1757), (1759, 1768), (1770, 1773), (1807, 1807), (1809, 1809),
      (1840, 1866), (1958, 1968), (2027, 2037), (2042, 2042), (2045, 2045),
      (2070, 2093), (2137, 2139), (2184, 2184), (2192, 2193), (2200, 2207),
      (2249, 2306), (2362, 2362), (2364, 2364), (2369, 2376), (2381, 2381),
      (2385, 2391), (2402, 2403), (2417, 2417), (2433, 2433), (2492, 2492),
      (2497, 2500), (2509, 2509), (2530, 2531), (2558, 2558), (2561, 2562),
      (2620, 2620), (2625, 2626), (2631, 2632), (2635, 2637), (2641, 2641),
      (2672, 2673), (2677, 2677), (2689, 2690), (2748, 2748), (2753, 2757),
      (2759, 2760), (2765, 2765), (2786, 2787), (2810, 2815), (2817, 2817),
      (2876, 2876), (2879, 2879), (2881, 2884), (2893, 2893), (2901, 2902),
      (2914, 2915), (2946, 2946), (3008, 3008), (3021, 3021), (3072, 3072),
      (3076, 3076), (3132, 3132), (3134, 3136), (3142, 3144), (3146, 3149),
      (3157, 3158), (3170, 3171), (3201, 3201), (3260, 3260), (3263, 3263),
      (3270, 3270), (3276, 3277), (3298, 3299), (3328, 3329), (3387, 3388),
      (3393, 3396), (3405, 3405), (3426, 3427), (3457, 3457), (3530, 3530),
      (3538, 3540), (3542, 3542), (3633, 3633), (3636, 3642), (3654, 3662),
      (3761, 3761), (3764, 3772), (3782, 3782), (3784, 3789), (3864, 3865),
      (3893, 3893), (3895, 3895), (3897, 3897), (3953, 3966), (3968, 3972),
      (3974, 3975), (3981, 3991), (3993, 4028), (4038, 4038), (4141, 4144),
      (4146, 4151), (4153, 4154), (4157, 4158), (4184, 4185), (4190, 4192),
      (4209, 4212), (4226, 4226), (4229, 4230), (4237, 4237), (4253, 4253),
      (4348, 4348), (4957, 4959), (5906, 5908), (5938, 5939), (5970, 5971),
      (6002, 6003), (6068, 6069), (6071, 6077), (6086, 6086), (6089, 6099),
      (6103, 6103), (6109, 6109), (6155, 6159), (6211, 6211), (6277, 6278),
      (6313, 6313), (6432, 6434), (6439, 6440), (6450, 6450), (6457, 6459),
      (6679, 6680), (6683, 6683), (6742, 6742), (6744, 6750), (6752, 6752),
      (6754, 6754), (6757, 6764), (6771, 6780), (6783, 6783), (6823, 6823),
      (6832, 6862), (6912, 6915), (6964, 6964), (6966, 6970), (6972, 6972),
      (6978, 6978), (7019, 7027), (7040, 7041), (7074, 7077), (7080, 7081),
      (7083, 7085), (7142, 7142), (7144, 7145), (7149, 7149), (7151, 7153),
      (7212, 7219), (7222, 7223), (7288, 7293), (7376, 7378), (7380, 7392),
      (7394, 7400), (7405, 7405), (7412, 7412), (7416, 7417), (7468, 7530),
      (7544, 7544), (7579, 7679), (8125, 8125), (8127, 8129), (8141, 8143),
      (8157, 8159), (8173, 8175), (8189, 8190), (8203, 8207), (8216, 8217),
      (8228, 8228), (8231, 8231), (8234, 8238), (8288, 8292), (8294, 8303),
      (8305, 8305), (8319, 8319), (8336, 8348), (8400, 8432), (11388, 11389),
      (11503, 11505), (11631, 11631), (11647, 11647), (11744, 11775), (11823, 11823),
      (12293, 12293), (12330, 12333), (12337, 12341), (12347, 12347), (12441, 12446),
      (12540, 12542), (40981, 40981), (42232, 42237), (42508, 42508), (42607, 42610),
      (42612, 42621), (42623, 42623), (42652, 42655), (42736, 42737), (42752, 42785),
      (42864, 42864), (42888, 42890), (42994, 42996), (43000, 43001), (43010, 43010),
      (43014, 43014), (43019, 43019), (43045, 43046), (43052, 43052), (43204, 43205),
      (43232, 43249), (43263, 43263), (43302, 43309), (43335, 43345), (43392, 43394),
      (43443, 43443), (43446, 43449), (43452, 43453), (43471, 43471), (43493, 43494),
      (43561, 43566), (43569, 43570), (43573, 43574), (43587, 43587), (43596, 43596),
      (43632, 43632), (43644, 43644), (43696, 43696), (43698, 43700), (43703, 43704),
      (43710, 43711), (43713, 43713), (43741, 43741), (43756, 43757), (43763, 43764),
      (43766, 43766), (43867, 43871), (43881, 43883), (44005, 44005), (44008, 44008),
      (44013, 44013), (64286, 64286), (64434, 64450), (65024, 65039), (65043, 65043),
      (65056, 65071), (65106, 65106), (65109, 65109), (65279, 65279), (65287, 65287),
      (65294, 65294), (65306, 65306), (65342, 65342), (65344, 65344), (65392, 65392),
      (65438, 65439), (65507, 65507), (65529, 65531), (66045, 66045), (66272, 66272),
      (66422, 66426), (67456, 67461), (67463, 67504), (67506, 67514), (68097, 68099),
      (68101, 68102), (68108, 68111), (68152, 68154), (68159, 68159), (68325, 68326),
      (68900, 68903), (69291, 69292), (69446, 69456), (69506, 69509), (69633, 69633),
      (69688, 69702), (69744, 69744), (69747, 69748), (69759, 69761), (69811, 69814),
      (69817, 69818), (69821, 69821), (69826, 69826), (69837, 69837), (69888, 69890),
      (69927, 69931), (69933, 69940), (70003, 70003), (70016, 70017), (70070, 70078),
      (70089, 70092), (70095, 70095), (70191, 70193), (70196, 70196), (70198, 70199),
      (70206, 70206), (70367, 70367), (70371, 70378), (70400, 70401), (70459, 70460),
      (70464, 70464), (70502, 70508), (70512, 70516), (70712, 70719), (70722, 70724),
      (70726, 70726), (70750, 70750), (70835, 70840), (70842, 70842), (70847, 70848),
      (70850, 70851), (71090, 71093), (71100, 71101), (71103, 71104), (71132, 71133),
      (71219, 71226), (71229, 71229), (71231, 71232), (71339, 71339), (71341, 71341),
      (71344, 71349), (71351, 71351), (71453, 71455), (71458, 71461), (71463, 71467),
      (71727, 71735), (71737, 71738), (71995, 71996), (71998, 71998), (72003, 72003),
      (72148, 72151), (72154, 72155), (72160, 72160), (72193, 72202), (72243, 72248),
      (72251, 72254), (72263, 72263), (72273, 72278), (72281, 72283), (72330, 72342),
      (72344, 72345), (72752, 72758), (72760, 72765), (72767, 72767), (72850, 72871),
      (72874, 72880), (72882, 72883), (72885, 72886), (73009, 73014), (73018, 73018),
      (73020, 73021), (73023, 73029), (73031, 73031), (73104, 73105), (73109, 73109),
      (73111, 73111), (73459, 73460), (78896, 78904), (92912, 92916), (92976, 92982),
      (92992, 92995), (94031, 94031), (94095, 94111), (94176, 94177), (94179, 94180),
      (110576, 110579), (110581, 110587), (110589, 110590), (113821, 113822), (113824, 113827),
      (118528, 118573), (118576, 118598), (119143, 119145), (119155, 119170), (119173, 119179),
      (119210, 119213), (119362, 119364), (121344, 121398), (121403, 121452), (121461, 121461),
      (121476, 121476), (121499, 121503), (121505, 121519), (122880, 122886), (122888, 122904),
      (122907, 122913), (122915, 122916), (122918, 122922), (123184, 123197), (123566, 123566),
      (123628, 123631), (125136, 125142), (125252, 125259), (127995, 127999), (917505, 917505),
      (917536, 917631), (917760, 917999)
     ]"

definition cased_runs :: "(nat \<times> nat) list" where
  "cased_runs =
     [
      (65, 90), (97, 122), (170, 170), (181, 181), (186, 186),
      (192, 214), (216, 246), (248, 442), (444, 447), (452, 659),
      (661, 687), (880, 883), (886, 887), (891, 893), (895, 895),
      (902, 902), (904, 906), (908, 908), (910, 929), (931, 1013),
      (1015, 1153), (1162, 1327), (1329, 1366), (1376, 1416), (4256, 4293),
      (4295, 4295), (4301, 4301), (4304, 4346), (4349, 4351), (5024, 5109),
      (5112, 5117), (7296, 7304), (7312, 7354), (7357, 7359), (7424, 7467),
      (7531, 7543), (7545, 7578), (7680, 7957), (7960, 7965), (7968, 8005),
      (8008, 8013), (8016, 8023), (8025, 8025), (8027, 8027), (8029, 8029),
      (8031, 8061), (8064, 8116), (8118, 8124), (8126, 8126), (8130, 8132),
      (8134, 8140), (8144, 8147), (8150, 8155), (8160, 8172), (8178, 8180),
      (8182, 8188), (8450, 8450), (8455, 8455), (8458, 8467), (8469, 8469),
      (8473, 8477), (8484, 8484), (8486, 8486), (8488, 8488), (8490, 8493),
      (8495, 8500), (8505, 8505), (8508, 8511), (8517, 8521), (8526, 8526),
      (8544, 8575), (8579, 8580), (9398, 9449), (11264, 11387), (11390, 11492),
      (11499, 11502), (11506, 11507), (11520, 11557), (11559, 11559), (11565, 11565),
      (42560, 42605), (42624, 42651), (42786, 42863), (42865, 42887), (42891, 42894),
      (42896, 42954), (42960, 42961), (42963, 42963), (42965, 42969), (42997, 42998),
      (43002, 43002), (43824, 43866), (43872, 43880), (43888, 43967), (64256, 64262),
      (64275, 64279), (65313, 65338), (65345, 65370), (66560, 66639), (66736, 66771),
      (66776, 66811), (66928, 66938), (66940, 66954), (66956, 66962), (66964, 66965),
      (66967, 66977), (66979, 66993), (66995, 67001), (67003, 67004), (68736, 68786),
      (68800, 68850), (71840, 71903), (93760, 93823), (119808, 119892), (119894, 119964),
      (119966, 119967), (119970, 119970), (119973, 119974), (119977, 119980), (119982, 119993),
      (119995, 119995), (119997, 120003), (120005, 120069), (120071, 120074), (120077, 120084),
      (120086, 120092), (120094, 120121), (120123, 120126), (120128, 120132), (120134, 120134),
      (120138, 120144), (120146, 120485), (120488, 120512), (120514, 120538), (120540, 120570),
      (120572, 120596), (120598, 120628), (120630, 120654), (120656, 120686), (120688, 120712),
      (120714, 120744), (120746, 120770), (120772, 120779), (122624, 122633), (122635, 122654),
      (125184, 125251), (127280, 127305), (127312, 127337), (127344, 127369)
     ]"

fun lookup_run :: "(nat \<times> nat \<times> nat \<times> nat) list \<Rightarrow> nat \<Rightarrow> nat option" where
  "lookup_run [] c = None"
| "lookup_run ((lo, hi, stride, target) # rs) c =
     (if c < lo then None
      else if c \<le> hi \<and> (c - lo) mod stride = 0 then Some (target + (c - lo))
      else lookup_run rs c)"

fun in_runs :: "(nat \<times> nat) list \<Rightarrow> nat \<Rightarrow> bool" where
  "in_runs [] c = False"
| "in_runs ((lo, hi) # rs) c =
     (if c < lo then False else if c \<le> hi then True else in_runs rs c)"

text \<open>
  The lower case of one code point: U+0130 becomes two code points, every other code
  point one.
\<close>

definition to_lower_full :: "nat \<Rightarrow> nat list" where
  "to_lower_full c =
     (if c = 304 then [105, 775]
      else case lookup_run lower_runs c of None \<Rightarrow> [c] | Some t \<Rightarrow> [t])"

definition is_case_ignorable :: "nat \<Rightarrow> bool" where
  "is_case_ignorable c = in_runs case_ignorable_runs c"

definition is_cased :: "nat \<Rightarrow> bool" where
  "is_cased c = in_runs cased_runs c"

text \<open>
  The capital sigma U+03A3 becomes the final sigma U+03C2 when the nearest code point
  before it that is not case-ignorable is cased, and the nearest such code point after it
  is not; \<open>before\<close> is the text before it, nearest code point first.
\<close>

definition final_sigma :: "nat list \<Rightarrow> nat list \<Rightarrow> bool" where
  "final_sigma before after =
     (case dropWhile is_case_ignorable before of
        [] \<Rightarrow> False
      | b # _ \<Rightarrow>
          is_cased b \<and>
          (case dropWhile is_case_ignorable after of [] \<Rightarrow> True | a # _ \<Rightarrow> \<not> is_cased a))"

fun do_lower :: "nat list \<Rightarrow> nat list \<Rightarrow> nat list" where
  "do_lower before [] = []"
| "do_lower before (c # after) =
     (if c = 931 then [if final_sigma before after then 962 else 963]
      else to_lower_full c) @ do_lower (c # before) after"

definition lower :: "string \<Rightarrow> nat list" where
  "lower s = do_lower [] (code_points s)"

text \<open>
  The format \<^verbatim>\<open>{x:.0f}\<close> of a float: the integer nearest to its exact value, a tie to the
  even one, the sign kept (so \<^verbatim>\<open>-0.4\<close> prints as \<^verbatim>\<open>-0\<close>).
\<close>

definition format_0f :: "pyfloat \<Rightarrow> string" where
  "format_0f x =
     (if exact_value x < 0 then CHR ''-'' # str_nat (nat (round_half_even (- exact_value x)))
      else str_nat (nat (round_half_even (exact_value x))))"

text \<open>
  The inner loop of \<^verbatim>\<open>check_budgets\<close> over \<^verbatim>\<open>enumerate(self.history)\<close>: one step for the
  index \<open>i\<close>, from the running total to the next one. The total is a float from its start
  \<^verbatim>\<open>0.0\<close>; \<^verbatim>\<open>dt\<close> is the float of \<^verbatim>\<open>total_seconds()\<close> or the int \<^verbatim>\<open>analysis_interval\<close>.
\<close>

definition budget_step ::
  "Config \<Rightarrow> datetime \<Rightarrow> nat list \<Rightarrow> ActivityRecord list \<Rightarrow> pyfloat \<Rightarrow> nat \<Rightarrow> pyfloat" where
  "budget_step config cutoff pattern_lower hist total_secs i =
     (let r = hist ! i in
      if timestamp r < cutoff then total_secs
      else if sublist pattern_lower (lower (activity_description r)) then
        (let dt = (if i + 1 < length hist
                   then PyFloat (total_seconds_float (timestamp (hist ! (i + 1)) - timestamp r))
                   else PyInt (analysis_interval config))
         in fadd total_secs (to_float dt))
      else total_secs)"

definition budget_total_minutes ::
  "Config \<Rightarrow> datetime \<Rightarrow> ActivityRecord list \<Rightarrow> TimeBudget \<Rightarrow> pyfloat" where
  "budget_total_minutes config now hist budget =
     (let window = timedelta_minutes (per_minutes budget);
          cutoff = now - window;
          pattern_lower = lower (activity_pattern budget);
          total_secs = foldl (budget_step config cutoff pattern_lower hist) (float_of 0)
                         [0..<length hist]
      in fdiv total_secs (float_of 60))"

definition violation_text :: "TimeBudget \<Rightarrow> pyfloat \<Rightarrow> string" where
  "violation_text budget total_minutes =
     activity_pattern budget @ '': '' @ format_0f total_minutes @ ''/''
       @ str_int (max_minutes budget) @ '' min used''"

text \<open>The comparison of the float \<^verbatim>\<open>total_minutes\<close> with the int \<^verbatim>\<open>max_minutes\<close> is exact.\<close>

definition check_budgets ::
  "Config \<Rightarrow> datetime \<Rightarrow> ActivityRecord list \<Rightarrow> TimeBudget list \<Rightarrow> string list" where
  "check_budgets config now hist budgets =
     foldl (\<lambda>exceeded budget.
              let total_minutes = budget_total_minutes config now hist budget
              in if of_int (max_minutes budget) < exact_value total_minutes
                 then exceeded @ [violation_text budget total_minutes]
                 else exceeded)
           [] budgets"

section \<open>DailySummary (\<^verbatim>\<open>focus/summary.py\<close>)\<close>

text \<open>
  A line of the activity log read back by \<^verbatim>\<open>_load_activity_log\<close> is a dictionary of JSON
  values; \<^verbatim>\<open>r.get(k)\<close> is \<open>dict_get r k\<close>.
\<close>

datatype json = JString string | JNumber real | JNull

type_synonym log_entry = "(string \<times> json) list"

definition dict_get :: "(string \<times> 'v) list \<Rightarrow> string \<Rightarrow> 'v option" where
  "dict_get d k = map_of d k"

definition count_status :: "string \<Rightarrow> log_entry list \<Rightarrow> nat" where
  "count_status s records =
     length (filter (\<lambda>r. dict_get r ''status'' = Some (JString s)) records)"

text \<open>
  The summary dictionary, with the fields that the score and the ranking read or write;
  a calendar day is its day number. The fields \<^verbatim>\<open>display_date\<close>, \<^verbatim>\<open>tracked_minutes\<close> and
  \<^verbatim>\<open>top_apps\<close>, computed from the usage data and the timestamps, are left out.
\<close>

record Summary =
  date :: int
  score :: pynum
  on_task_pct :: pynum
  off_task_pct :: pynum
  checks :: nat
  ranking :: string

text \<open>
  \<open>records\<close> is the result of \<^verbatim>\<open>_load_activity_log(day)\<close>. The counts are ints, so
  \<^verbatim>\<open>on_task / productive_checks\<close> is the float nearest to the quotient, and the product
  with the int 100 is rounded once more; the defaults 0 and 50 are ints.
\<close>

definition build_summary :: "int \<Rightarrow> log_entry list \<Rightarrow> Summary" where
  "build_summary day records =
     (let n = length records;
          on_task = count_status ''on_task'' records;
          off_task = count_status ''off_task'' records;
          on_task_pct' =
            (if 0 < n
             then PyFloat (fmul (py_truediv (PyInt (int on_task)) (PyInt (int n)))
                             (to_float (PyInt 100)))
             else PyInt 0);
          off_task_pct' =
            (if 0 < n
             then PyFloat (fmul (py_truediv (PyInt (int off_task)) (PyInt (int n)))
                             (to_float (PyInt 100)))
             else PyInt 0);
          productive_checks = on_task + off_task;
          score' =
            (if 0 < productive_checks
             then PyFloat (fmul (py_truediv (PyInt (int on_task)) (PyInt (int productive_checks)))
                             (to_float (PyInt 100)))
             else PyInt 50)
      in \<lparr>date = day,
          score = py_round1 score',
          on_task_pct = py_round1 on_task_pct',
          off_task_pct = py_round1 off_task_pct',
          checks = n,
          ranking = []\<rparr>)"

text \<open>
  The summary directory: \<open>store day\<close> is the content of the file of \<open>day\<close> as \<^verbatim>\<open>_load\<close>
  returns it, \<open>None\<close> for a missing or unreadable file. A stored summary has the fields
  that \<^verbatim>\<open>_save\<close> writes.
\<close>

type_synonym summary_store = "int \<Rightarrow> Summary option"

definition get_recent :: "summary_store \<Rightarrow> int \<Rightarrow> nat \<Rightarrow> Summary list" where
  "get_recent store today days =
     List.map_filter (\<lambda>i. store (today - int i)) [0..<days]"

definition RANKINGS :: "string list" where
  "RANKINGS = [''waste of ATP'', ''lazy'', ''nothing special'', ''productive'', ''paul dirac'']"

text \<open>The thresholds are the floats of the literals \<^verbatim>\<open>0.4\<close>, \<^verbatim>\<open>0.7\<close>, \<^verbatim>\<open>1.1\<close> and \<^verbatim>\<open>1.4\<close>.\<close>

definition RANK_THRESHOLDS :: "pyfloat list" where
  "RANK_THRESHOLDS =
     [float_of (4 / 10), float_of (7 / 10), float_of (11 / 10), float_of (14 / 10)]"

text \<open>The loop of \<^verbatim>\<open>_rank\<close> over \<^verbatim>\<open>enumerate(_RANK_THRESHOLDS)\<close>, from the index \<open>i\<close> on.\<close>

fun rank_scan :: "pyfloat \<Rightarrow> nat \<Rightarrow> pyfloat list \<Rightarrow> string" where
  "rank_scan ratio i [] = last RANKINGS"
| "rank_scan ratio i (threshold # ts) =
     (if exact_value ratio < exact_value threshold then RANKINGS ! i
      else rank_scan ratio (i + 1) ts)"

definition past_scores :: "summary_store \<Rightarrow> int \<Rightarrow> pynum list" where
  "past_scores store today =
     map score (filter (\<lambda>s. date s \<noteq> today \<and> 0 < num_value (score s))
                  (get_recent store today 30))"

text \<open>
  \<^verbatim>\<open>_rank\<close>. The sum of the past scores is divided by their number, an int, and today's
  score by the average, a float.
\<close>

definition rank :: "summary_store \<Rightarrow> int \<Rightarrow> pynum \<Rightarrow> string" where
  "rank store today sc =
     (let ps = past_scores store today in
      if ps = [] then ''productive''
      else
        let avg = py_truediv (py_sum ps) (PyInt (int (length ps))) in
        if exact_value avg = 0 then ''productive''
        else rank_scan (py_truediv sc (PyFloat avg)) 0 RANK_THRESHOLDS)"

text \<open>\<^verbatim>\<open>_save\<close>: the write is not guarded, an \<^verbatim>\<open>OSError\<close> leaves the function.\<close>

definition save :: "bool \<Rightarrow> summary_store \<Rightarrow> int \<Rightarrow> Summary \<Rightarrow> py_error + summary_store" where
  "save ok store day summary = (if ok then Inr (store(day := Some summary)) else Inl OSError)"

text \<open>
  \<^verbatim>\<open>generate_today\<close>: the summary returned and the summary directory after the call, or
  the exception that leaves the call.
\<close>

definition generate_today ::
  "bool \<Rightarrow> summary_store \<Rightarrow> int \<Rightarrow> log_entry list \<Rightarrow> py_error + (Summary \<times> summary_store)" where
  "generate_today ok store today records =
     (let summary = build_summary today records;
          summary1 = summary\<lparr>ranking := rank store today (score summary)\<rparr>
      in case save ok store today summary1 of
           Inl e \<Rightarrow> Inl e
         | Inr store' \<Rightarrow> Inr (summary1, store'))"

section \<open>The specification's wording\<close>

text \<open>
  The streak as the specification describes it: the maximal trailing run of records that
  share the status of the newest record, newest first.
\<close>

definition trailing_run :: "ActivityRecord list \<Rightarrow> ActivityRecord list" where
  "trailing_run hist = takeWhile (\<lambda>r. status r = status (last hist)) (rev hist)"

text \<open>
  The budget estimate. A record matches a budget when its description, in lower case,
  contains the pattern, in lower case. The estimated duration of the record at an index
  is the gap to the next record of the log, and the nominal interval for the newest
  record. The estimate of a budget adds, as floats and in the order of the log, the
  durations of the matching records of a window, and divides by 60. The specification's
  window is \<open>[now - per_minutes, now]\<close>; the window \<open>since_cutoff\<close> has the lower end only.
\<close>

definition matches_budget :: "TimeBudget \<Rightarrow> ActivityRecord \<Rightarrow> bool" where
  "matches_budget budget r =
     sublist (lower (activity_pattern budget)) (lower (activity_description r))"

definition in_window :: "datetime \<Rightarrow> TimeBudget \<Rightarrow> ActivityRecord \<Rightarrow> bool" where
  "in_window now budget r =
     (now - timedelta_minutes (per_minutes budget) \<le> timestamp r \<and> timestamp r \<le> now)"

definition since_cutoff :: "datetime \<Rightarrow> TimeBudget \<Rightarrow> ActivityRecord \<Rightarrow> bool" where
  "since_cutoff now budget r = (now - timedelta_minutes (per_minutes budget) \<le> timestamp r)"

definition estimated_duration :: "Config \<Rightarrow> ActivityRecord list \<Rightarrow> nat \<Rightarrow> pynum" where
  "estimated_duration config hist i =
     (if i + 1 < length hist
      then PyFloat (total_seconds_float (timestamp (hist ! (i + 1)) - timestamp (hist ! i)))
      else PyInt (analysis_interval config))"

definition float_sum :: "pynum list \<Rightarrow> pyfloat" where
  "float_sum xs = foldl (\<lambda>acc x. fadd acc (to_float x)) (float_of 0) xs"

definition window_minutes ::
  "(ActivityRecord \<Rightarrow> bool) \<Rightarrow> Config \<Rightarrow> ActivityRecord list \<Rightarrow> TimeBudget \<Rightarrow> pyfloat" where
  "window_minutes window config hist budget =
     fdiv (float_sum (map (estimated_duration config hist)
                        (filter (\<lambda>i. window (hist ! i) \<and> matches_budget budget (hist ! i))
                           [0..<length hist])))
       (float_of 60)"

definition estimated_minutes ::
  "Config \<Rightarrow> datetime \<Rightarrow> ActivityRecord list \<Rightarrow> TimeBudget \<Rightarrow> pyfloat" where
  "estimated_minutes config now hist budget =
     window_minutes (since_cutoff now budget) config hist budget"

definition claimed_minutes ::
  "Config \<Rightarrow> datetime \<Rightarrow> ActivityRecord list \<Rightarrow> TimeBudget \<Rightarrow> pyfloat" where
  "claimed_minutes config now hist budget =
     window_minutes (in_window now budget) config hist budget"

text \<open>
  Containment without regard to case, for ASCII text: two characters are the same letter
  when they are equal, or one is a capital letter \<^verbatim>\<open>A\<close> to \<^verbatim>\<open>Z\<close> and the other the small
  letter, 32 code points above it (\<open>small_letter\<close> gives the code point of the small
  letter); the pattern occurs in the text when a stretch of the text is the pattern letter
  by letter.
\<close>

definition is_ascii :: "string \<Rightarrow> bool" where
  "is_ascii s = list_all (\<lambda>c. (of_char c :: nat) < 128) s"

definition capital :: "char \<Rightarrow> bool" where
  "capital c = (65 \<le> (of_char c :: nat) \<and> (of_char c :: nat) \<le> 90)"

definition small_letter :: "char \<Rightarrow> nat" where
  "small_letter c = (if capital c then of_char c + 32 else of_char c)"

definition same_letter :: "char \<Rightarrow> char \<Rightarrow> bool" where
  "same_letter a b =
     (a = b \<or> capital a \<and> (of_char b :: nat) = of_char a + 32
            \<or> capital b \<and> (of_char a :: nat) = of_char b + 32)"

definition occurs_ignoring_case :: "string \<Rightarrow> string \<Rightarrow> bool" where
  "occurs_ignoring_case pattern text =
     (\<exists>before stretch after.
        text = before @ stretch @ after \<and> list_all2 same_letter pattern stretch)"




section \<open>Example inputs\<close>

definition sample_off_task :: AnalysisResult where
  "sample_off_task =
     \<lparr>timestamp = 0, activity_description = ''watching videos'', status = OFF_TASK,
      confidence = 9 / 10, reasoning = ''video site in front'', suggestion = None\<rparr>"

definition sample_on_task :: AnalysisResult where
  "sample_on_task =
     \<lparr>timestamp = 0, activity_description = ''writing code'', status = ON_TASK,
      confidence = 9 / 10, reasoning = ''editor in front'', suggestion = None\<rparr>"

definition sample_history :: "ActivityRecord list" where
  "sample_history =
     [\<lparr>timestamp = 0, activity_description = ''watching videos'', status = OFF_TASK,
       confidence = 9 / 10\<rparr>,
      \<lparr>timestamp = 10000000, activity_description = ''watching videos'', status = OFF_TASK,
       confidence = 9 / 10\<rparr>,
      \<lparr>timestamp = 20000000, activity_description = ''writing code'', status = ON_TASK,
       confidence = 9 / 10\<rparr>]"

definition sample_at :: "int \<Rightarrow> AnalysisResult" where
  "sample_at seconds = sample_off_task\<lparr>timestamp := timedelta_seconds seconds\<rparr>"

definition small_config :: Config where
  "small_config = default_config\<lparr>max_history_entries := 2\<rparr>"

text \<open>A record of the log, with its time in microseconds and its description.\<close>

definition seen :: "int \<Rightarrow> string \<Rightarrow> ActivityRecord" where
  "seen t d = \<lparr>timestamp = t, activity_description = d, status = OFF_TASK, confidence = 9 / 10\<rparr>"

definition budget_of :: "string \<Rightarrow> int \<Rightarrow> TimeBudget" where
  "budget_of p cap = \<lparr>activity_pattern = p, max_minutes = cap, per_minutes = 60\<rparr>"

text \<open>Two matching records at 0 and 5 minutes.\<close>

definition youtube_history :: "ActivityRecord list" where
  "youtube_history = [seen 0 ''Watching YouTube'', seen 300000000 ''youtube shorts'']"

text \<open>
  Four matching records with the gaps 16.3 s, 26.4 s, 15.2 s and 2.1 s, which are 60 s
  together, and a record that does not match.
\<close>

definition minute_history :: "ActivityRecord list" where
  "minute_history =
     [seen 0 ''YOUTUBE live'', seen 16300000 ''watching youtube'',
      seen 42700000 ''YouTube - music'', seen 57900000 ''youtube'',
      seen 60000000 ''writing code'']"

text \<open>The pattern \<^verbatim>\<open>CAFE\<close> and the description \<^verbatim>\<open>cafe time\<close>, each with an acute accent on the e.\<close>

definition cafe_pattern :: string where
  "cafe_pattern = ''CAF'' @ [CHR 0xC3, CHR 0x89]"

definition cafe_history :: "ActivityRecord list" where
  "cafe_history =
     [seen 0 (''caf'' @ [CHR 0xC3, CHR 0xA9] @ '' time''), seen 600000000 ''writing code'']"

text \<open>
  A matching record at 50 minutes and another record at 59.5 minutes; then the local clock
  is set back by an hour, as at the end of summer time, and the next record is stamped 5
  minutes, which is when the log is read.
\<close>

definition late_history :: "ActivityRecord list" where
  "late_history =
     [seen 3000000000 ''youtube'', seen 3570000000 ''writing code'',
      seen 300000000 ''writing code'']"

definition status_entry :: "string \<Rightarrow> log_entry" where
  "status_entry s =
     [(''timestamp'', JString ''2024-05-01T09:00:00''),
      (''activity_description'', JString ''sample''),
      (''status'', JString s),
      (''confidence'', JNumber (9 / 10))]"






section \<open>Properties\<close>

subsection \<open>Floats\<close>

lemma exact_value_float_of: "exact_value (float_of x) = fl x"
  by (simp add: float_of_def Abs_pyfloat_inverse)

lemma float_of_eq_iff: "float_of a = float_of b \<longleftrightarrow> fl a = fl b"
  by (simp add: float_of_def Abs_pyfloat_inject)

lemma fl_0: "fl 0 = 0"
  by (simp add: fl_def)

lemma fl_10: "fl 10 = 10"
  by code_simp

lemma fl_2000: "fl 2000 = 2000"
  by code_simp

lemma total_seconds_0: "total_seconds 0 = 0"
  by (simp add: total_seconds_def total_seconds_float_def exact_value_float_of fl_0)

lemma total_seconds_10: "total_seconds 10000000 = 10"
  by (simp add: total_seconds_def total_seconds_float_def exact_value_float_of fl_10)

lemma total_seconds_2000: "total_seconds 2000000000 = 2000"
  by (simp add: total_seconds_def total_seconds_float_def exact_value_float_of fl_2000)

subsection \<open>Primitives\<close>

lemma str_int_5: "str_int 5 = ''5''"
  by (simp add: str_int_def)

lemma py_int_5: "py_int 5 = 5"
  by (simp add: py_int_def)

subsection \<open>One decide cycle\<close>

lemma notify_not_off_task:
  "status result \<noteq> OFF_TASK \<Longrightarrow>
     notify_if_needed config now self result d = (self\<lparr>escalation_start := None\<rparr>, None)"
  by (cases "escalation_start self") (auto simp: notify_if_needed_def)

lemma notify_suppressed:
  "status result = OFF_TASK \<Longrightarrow>
   now - last_notification_time self < real_of_int (notification_cooldown config) \<Longrightarrow>
     notify_if_needed config now self result d = (self, None)"
  by (simp add: notify_if_needed_def)

lemma notify_dispatch:
  "status result = OFF_TASK \<Longrightarrow>
   real_of_int (notification_cooldown config) \<le> now - last_notification_time self \<Longrightarrow>
     notify_if_needed config now self result d =
       (\<lparr>last_notification_time = now,
         escalation_start = Some (case escalation_start self of None \<Rightarrow> now | Some t \<Rightarrow> t)\<rparr>,
        Some (if real_of_int (escalation_delay config)
                   \<le> now - (case escalation_start self of None \<Rightarrow> now | Some t \<Rightarrow> t)
              then send_urgent result d else send_gentle result))"
  by (cases "escalation_start self") (auto simp: notify_if_needed_def Let_def)

text \<open>
  C1, as the code has it. In a decide cycle whose classification is off_task and whose
  cooldown has elapsed, \<open>escalation_start\<close> is set to now if it was unset, and
  \<open>last_notification_time\<close> becomes now. If now minus \<open>escalation_start\<close> reaches
  \<open>escalation_delay\<close>, the urgent alert (alert title, with sound) is dispatched, otherwise
  the gentle one (reminder title, no sound). In both, the message is the classifier's
  suggestion when that is present and not empty; only without such a suggestion is it the
  template: for the urgent alert the text that includes the integer minutes of the
  off-task duration, for the gentle one the text that names the activity.
\<close>

theorem notify_if_needed_off_task:
  assumes "status result = OFF_TASK"
      and "real_of_int (notification_cooldown config) \<le> now - last_notification_time self"
  shows "let start = (case escalation_start self of None \<Rightarrow> now | Some t \<Rightarrow> t);
             minutes = py_int (off_task_duration / 60);
             urgent_message =
               (case suggestion result of
                  None \<Rightarrow> urgent_fallback result minutes
                | Some s \<Rightarrow> if s = [] then urgent_fallback result minutes else s);
             gentle_message =
               (case suggestion result of
                  None \<Rightarrow> gentle_fallback result
                | Some s \<Rightarrow> if s = [] then gentle_fallback result else s)
         in notify_if_needed config now self result off_task_duration =
              (\<lparr>last_notification_time = now, escalation_start = Some start\<rparr>,
               Some (if real_of_int (escalation_delay config) \<le> now - start
                     then \<lparr>title = [CHR 0xE2, CHR 0x9A, CHR 0xA0] @ '' Focus Alert'',
                           message = urgent_message, sound = True\<rparr>
                     else \<lparr>title = ''Focus Reminder'',
                           message = gentle_message, sound = False\<rparr>))
            \<and> sublist (str_int minutes) (urgent_fallback result minutes)
            \<and> sublist (activity_description result) (gentle_fallback result)"
proof -
  have a: "sublist (str_int m) (urgent_fallback result m)" for m
    unfolding urgent_fallback_def by (rule sublist_appendI)
  have b: "sublist (activity_description result) (gentle_fallback result)"
    unfolding gentle_fallback_def by (rule sublist_appendI)
  show ?thesis
    using notify_dispatch [OF assms, of off_task_duration] a b
    by (simp add: Let_def send_urgent_def send_gentle_def py_or_def)
qed

text \<open>
  The theorem at an escalated cycle without a suggestion, 300 s after the gentle alert
  that started the escalation: five minutes off task, the urgent template with the
  minutes.
\<close>

theorem notify_if_needed_off_task_witness:
  "status sample_off_task = OFF_TASK
   \<and> real_of_int (notification_cooldown default_config)
        \<le> 1300 - last_notification_time \<lparr>last_notification_time = 1000, escalation_start = Some 1000\<rparr>
   \<and> notify_if_needed default_config 1300
        \<lparr>last_notification_time = 1000, escalation_start = Some 1000\<rparr> sample_off_task 300 =
       (\<lparr>last_notification_time = 1300, escalation_start = Some 1000\<rparr>,
        Some \<lparr>title = [CHR 0xE2, CHR 0x9A, CHR 0xA0] @ '' Focus Alert'',
              message = ''You've been off-task for 5+ minutes (watching videos). Get back to work!'',
              sound = True\<rparr>)"
proof -
  have h1: "status sample_off_task = OFF_TASK"
    by (simp add: sample_off_task_def)
  have h2: "real_of_int (notification_cooldown default_config)
        \<le> 1300 - last_notification_time \<lparr>last_notification_time = 1000, escalation_start = Some 1000\<rparr>"
    by (simp add: default_config_def)
  show ?thesis
    using h1 h2 notify_if_needed_off_task [OF h1 h2, of 300]
    by (simp add: Let_def default_config_def sample_off_task_def urgent_fallback_def
          py_int_5 str_int_5)
qed

text \<open>
  The same cycle with a suggestion from the classifier: the urgent alert is dispatched
  and its message is the suggestion, which does not hold the minutes.
\<close>

theorem urgent_message_without_minutes:
  "status (sample_off_task\<lparr>suggestion := Some ''Close the tab''\<rparr>) = OFF_TASK
   \<and> real_of_int (notification_cooldown default_config) \<le> 1300 - 1000
   \<and> real_of_int (escalation_delay default_config) \<le> 1300 - 1000
   \<and> notify_if_needed default_config 1300
        \<lparr>last_notification_time = 1000, escalation_start = Some 1000\<rparr>
        (sample_off_task\<lparr>suggestion := Some ''Close the tab''\<rparr>) 300 =
       (\<lparr>last_notification_time = 1300, escalation_start = Some 1000\<rparr>,
        Some \<lparr>title = [CHR 0xE2, CHR 0x9A, CHR 0xA0] @ '' Focus Alert'',
              message = ''Close the tab'', sound = True\<rparr>)
   \<and> str_int (py_int (300 / 60)) = ''5''
   \<and> \<not> sublist ''5'' ''Close the tab''"
proof -
  have "\<not> sublist ''5'' ''Close the tab''"
    by code_simp
  then show ?thesis
    by (simp add: notify_if_needed_def Let_def default_config_def sample_off_task_def
          send_urgent_def py_or_def py_int_5 str_int_5)
qed

subsection \<open>Sequences of decide cycles\<close>

lemma run_cycles_append:
  "run_cycles config self (cs @ cs') =
     (case run_cycles config self cs of
        (self', ns) \<Rightarrow>
          (case run_cycles config self' cs' of (self'', ns') \<Rightarrow> (self'', ns @ ns')))"
  by (induction cs arbitrary: self) (auto split: prod.splits option.splits)

lemma run_cycles_not_off_task:
  "\<forall>c \<in> set cs. status (fst (snd c)) \<noteq> OFF_TASK \<Longrightarrow> escalation_start self = None \<Longrightarrow>
     run_cycles config self cs = (self, [])"
proof (induction cs)
  case Nil
  then show ?case by simp
next
  case (Cons c cs)
  obtain now result d where c: "c = (now, result, d)"
    by (cases c) auto
  from Cons.prems have "status result \<noteq> OFF_TASK"
    by (simp add: c)
  then have "notify_if_needed config now self result d = (self, None)"
    using Cons.prems(2) by (simp add: notify_not_off_task)
  with Cons show ?case
    by (simp add: c)
qed

lemma notify_cases:
  assumes "notify_if_needed config now self result d = (self', r)"
  shows "(r = None \<and> last_notification_time self' = last_notification_time self)
       \<or> (r \<noteq> None \<and> last_notification_time self' = now
           \<and> real_of_int (notification_cooldown config) \<le> now - last_notification_time self)"
proof (cases "status result = OFF_TASK")
  case False
  then show ?thesis
    using assms by (auto simp: notify_not_off_task)
next
  case True
  show ?thesis
  proof (cases "now - last_notification_time self < real_of_int (notification_cooldown config)")
    case True
    with \<open>status result = OFF_TASK\<close> assms show ?thesis
      by (auto simp: notify_suppressed)
  next
    case False
    with \<open>status result = OFF_TASK\<close> assms show ?thesis
      by (auto simp: notify_dispatch)
  qed
qed

lemma run_cycles_successive:
  "successively (\<lambda>a b. real_of_int (notification_cooldown config) \<le> b - a)
     (last_notification_time self # map fst (snd (run_cycles config self cs)))"
proof (induction cs arbitrary: self)
  case Nil
  then show ?case by simp
next
  case (Cons c cs)
  obtain now result d where c: "c = (now, result, d)"
    by (cases c) auto
  obtain self' r where step: "notify_if_needed config now self result d = (self', r)"
    by (cases "notify_if_needed config now self result d") auto
  from notify_cases [OF step] Cons.IH [of self'] show ?case
    by (auto simp: c step split: prod.splits)
qed

lemma run_cycles_separated:
  assumes "0 \<le> notification_cooldown config"
  shows "sorted_wrt (\<lambda>a b. real_of_int (notification_cooldown config) \<le> b - a)
     (last_notification_time self # map fst (snd (run_cycles config self cs)))"
proof -
  have "transp (\<lambda>a b::real. real_of_int (notification_cooldown config) \<le> b - a)"
    using assms by (auto simp: transp_def)
  then show ?thesis
    using run_cycles_successive [of config self cs]
    by (simp only: successively_conv_sorted_wrt)
qed

lemma sample_run:
  "map fst (snd (run_cycles default_config Notifier_init
      [(1000, sample_off_task, 0), (1005, sample_off_task, 5),
       (1120, sample_off_task, 120), (1240, sample_off_task, 240)])) = [1000, 1120, 1240]"
  by (simp add: notify_if_needed_def Let_def default_config_def Notifier_init_def
        sample_off_task_def)

text \<open>
  C2. In every sequence of decide cycles, from every state of the notifier: with a
  cooldown that is not negative, any two dispatched alerts, of either severity, are at
  least \<open>notification_cooldown\<close> seconds apart; two alerts dispatched one after the other
  are so for every cooldown. And with a cooldown of 120 seconds, two off-task samples 5
  seconds apart, the first of them past the cooldown, dispatch exactly one alert.
\<close>

theorem cooldown_separation:
  "(0 \<le> notification_cooldown config \<longrightarrow>
      (\<forall>i j. i < j \<and> j < length (snd (run_cycles config self cs)) \<longrightarrow>
         real_of_int (notification_cooldown config)
           \<le> fst (snd (run_cycles config self cs) ! j) - fst (snd (run_cycles config self cs) ! i)))
   \<and> (\<forall>i. Suc i < length (snd (run_cycles config self cs)) \<longrightarrow>
         real_of_int (notification_cooldown config)
           \<le> fst (snd (run_cycles config self cs) ! Suc i)
               - fst (snd (run_cycles config self cs) ! i))
   \<and> (notification_cooldown config = 120 \<and> status r1 = OFF_TASK \<and> status r2 = OFF_TASK
        \<and> 120 \<le> t - last_notification_time self \<longrightarrow>
       length (snd (run_cycles config self [(t, r1, d1), (t + 5, r2, d2)])) = 1)"
proof (intro conjI impI allI)
  let ?ns = "snd (run_cycles config self cs)"
  let ?c = "real_of_int (notification_cooldown config)"
  fix i j
  assume nonneg: "0 \<le> notification_cooldown config" and ij: "i < j \<and> j < length ?ns"
  from run_cycles_separated [OF nonneg, of self cs]
  have "sorted_wrt (\<lambda>a b. ?c \<le> b - a) (map fst ?ns)"
    by simp
  from sorted_wrt_nth_less [OF this, of i j] ij
  have "?c \<le> map fst ?ns ! j - map fst ?ns ! i"
    by simp
  then show "?c \<le> fst (?ns ! j) - fst (?ns ! i)"
    using ij by simp
next
  let ?ns = "snd (run_cycles config self cs)"
  let ?c = "real_of_int (notification_cooldown config)"
  fix i
  assume i: "Suc i < length ?ns"
  have tl: "successively P xs" if "successively P (x # xs)" for P and x :: real and xs
    using that by (cases xs) simp_all
  have "successively (\<lambda>a b. ?c \<le> b - a) (map fst ?ns)"
    by (rule tl) (rule run_cycles_successive)
  from successively_nth [OF this, of i] i show "?c \<le> fst (?ns ! Suc i) - fst (?ns ! i)"
    by simp
next
  assume a: "notification_cooldown config = 120 \<and> status r1 = OFF_TASK \<and> status r2 = OFF_TASK
        \<and> 120 \<le> t - last_notification_time self"
  then have "notify_if_needed config t self r1 d1 =
       (\<lparr>last_notification_time = t,
         escalation_start = Some (case escalation_start self of None \<Rightarrow> t | Some u \<Rightarrow> u)\<rparr>,
        Some (if real_of_int (escalation_delay config)
                   \<le> t - (case escalation_start self of None \<Rightarrow> t | Some u \<Rightarrow> u)
              then send_urgent r1 d1 else send_gentle r1))"
    by (intro notify_dispatch) simp_all
  moreover have "notify_if_needed config (t + 5) s' r2 d2 = (s', None)"
    if "last_notification_time s' = t" for s'
    using a that by (intro notify_suppressed) simp_all
  ultimately show "length (snd (run_cycles config self [(t, r1, d1), (t + 5, r2, d2)])) = 1"
    by simp
qed

text \<open>
  The theorem on four off-task samples at 1000, 1005, 1120 and 1240 seconds, from a fresh
  notifier with the default configuration: alerts at 1000, 1120 and 1240.
\<close>

theorem cooldown_separation_witness:
  "0 \<le> notification_cooldown default_config
   \<and> map fst (snd (run_cycles default_config Notifier_init
        [(1000, sample_off_task, 0), (1005, sample_off_task, 5),
         (1120, sample_off_task, 120), (1240, sample_off_task, 240)])) = [1000, 1120, 1240]
   \<and> real_of_int (notification_cooldown default_config) \<le> 1240 - 1000
   \<and> notification_cooldown default_config = 120
   \<and> status sample_off_task = OFF_TASK
   \<and> 120 \<le> 1000 - last_notification_time Notifier_init
   \<and> length (snd (run_cycles default_config Notifier_init
        [(1000, sample_off_task, 0), (1000 + 5, sample_off_task, 5)])) = 1"
proof -
  let ?cs = "[(1000, sample_off_task, 0), (1005, sample_off_task, 5),
       (1120, sample_off_task, 120), (1240, sample_off_task, 240)]"
  let ?ns = "snd (run_cycles default_config Notifier_init ?cs)"
  note t = cooldown_separation [of default_config Notifier_init ?cs
      sample_off_task sample_off_task 1000 0 5]
  have h1: "0 \<le> notification_cooldown default_config"
    by (simp add: default_config_def)
  have h2: "notification_cooldown default_config = 120 \<and> status sample_off_task = OFF_TASK
      \<and> status sample_off_task = OFF_TASK \<and> 120 \<le> 1000 - last_notification_time Notifier_init"
    by (simp add: default_config_def sample_off_task_def Notifier_init_def)
  have len: "length ?ns = 3"
    using arg_cong [OF sample_run, of length] by (simp del: run_cycles.simps)
  from t h1 have "(0::nat) < 2 \<and> 2 < length ?ns \<longrightarrow>
      real_of_int (notification_cooldown default_config) \<le> fst (?ns ! 2) - fst (?ns ! 0)"
    by blast
  then have "real_of_int (notification_cooldown default_config)
      \<le> map fst ?ns ! 2 - map fst ?ns ! 0"
    by (simp add: len del: run_cycles.simps)
  then have a: "real_of_int (notification_cooldown default_config) \<le> 1240 - 1000"
    by (simp only: sample_run) simp
  from t h2 have b: "length (snd (run_cycles default_config Notifier_init
        [(1000, sample_off_task, 0), (1000 + 5, sample_off_task, 5)])) = 1"
    by blast
  show ?thesis
    using h1 h2 a b sample_run by blast
qed

text \<open>
  C3. A decide cycle whose classification is not off_task clears \<open>escalation_start\<close>,
  changes nothing else and dispatches no alert. With a positive \<open>escalation_delay\<close>, an
  off-task sample that follows it with the cooldown elapsed dispatches the gentle alert
  (reminder title, no sound), and starts the escalation at its own time.
\<close>

theorem escalation_reset:
  assumes "status result \<noteq> OFF_TASK"
  shows "notify_if_needed config now self result d = (self\<lparr>escalation_start := None\<rparr>, None)
         \<and> (status result' = OFF_TASK
              \<and> 0 < escalation_delay config
              \<and> real_of_int (notification_cooldown config) \<le> now' - last_notification_time self
            \<longrightarrow> notify_if_needed config now'
                  (fst (notify_if_needed config now self result d)) result' d' =
                (\<lparr>last_notification_time = now', escalation_start = Some now'\<rparr>,
                 Some (send_gentle result'))
                \<and> title (send_gentle result') = ''Focus Reminder''
                \<and> \<not> sound (send_gentle result'))"
proof -
  have step: "notify_if_needed config now self result d = (self\<lparr>escalation_start := None\<rparr>, None)"
    using assms by (rule notify_not_off_task)
  moreover have "notify_if_needed config now' (self\<lparr>escalation_start := None\<rparr>) result' d' =
      (\<lparr>last_notification_time = now', escalation_start = Some now'\<rparr>, Some (send_gentle result'))"
    if "status result' = OFF_TASK" "0 < escalation_delay config"
       "real_of_int (notification_cooldown config) \<le> now' - last_notification_time self"
    using that notify_dispatch [of result' config now' "self\<lparr>escalation_start := None\<rparr>" d']
    by simp
  ultimately show ?thesis
    by (simp add: send_gentle_def)
qed

text \<open>
  The theorem on an on-task sample at 2000 seconds that meets a running escalation, and an
  off-task sample at 2030 seconds.
\<close>

theorem escalation_reset_witness:
  "status sample_on_task \<noteq> OFF_TASK
   \<and> status sample_off_task = OFF_TASK
   \<and> 0 < escalation_delay default_config
   \<and> real_of_int (notification_cooldown default_config)
        \<le> 2030 - last_notification_time \<lparr>last_notification_time = 1000, escalation_start = Some 1000\<rparr>
   \<and> notify_if_needed default_config 2000
        \<lparr>last_notification_time = 1000, escalation_start = Some 1000\<rparr> sample_on_task 0 =
       (\<lparr>last_notification_time = 1000, escalation_start = None\<rparr>, None)
   \<and> notify_if_needed default_config 2030
        \<lparr>last_notification_time = 1000, escalation_start = None\<rparr> sample_off_task 0 =
       (\<lparr>last_notification_time = 2030, escalation_start = Some 2030\<rparr>,
        Some \<lparr>title = ''Focus Reminder'',
              message = ''Looks like you're watching videos. Time to refocus?'',
              sound = False\<rparr>)"
proof -
  have h: "status sample_on_task \<noteq> OFF_TASK"
    by (simp add: sample_on_task_def)
  have h': "status sample_off_task = OFF_TASK
       \<and> 0 < escalation_delay default_config
       \<and> real_of_int (notification_cooldown default_config)
          \<le> 2030 - last_notification_time \<lparr>last_notification_time = 1000, escalation_start = Some 1000\<rparr>"
    by (simp add: default_config_def sample_off_task_def)
  note t = escalation_reset [OF h, of default_config 2000
        "\<lparr>last_notification_time = 1000, escalation_start = Some 1000\<rparr>" 0
        sample_off_task 2030 0]
  from t have a: "notify_if_needed default_config 2000
        \<lparr>last_notification_time = 1000, escalation_start = Some 1000\<rparr> sample_on_task 0 =
       (\<lparr>last_notification_time = 1000, escalation_start = None\<rparr>, None)"
    by simp
  from t h' have "notify_if_needed default_config 2030
        (fst (notify_if_needed default_config 2000
           \<lparr>last_notification_time = 1000, escalation_start = Some 1000\<rparr> sample_on_task 0))
        sample_off_task 0 =
       (\<lparr>last_notification_time = 2030, escalation_start = Some 2030\<rparr>,
        Some (send_gentle sample_off_task))"
    by blast
  then have b: "notify_if_needed default_config 2030
        \<lparr>last_notification_time = 1000, escalation_start = None\<rparr> sample_off_task 0 =
       (\<lparr>last_notification_time = 2030, escalation_start = Some 2030\<rparr>,
        Some (send_gentle sample_off_task))"
    by (simp only: a fst_conv)
  have c: "send_gentle sample_off_task =
      \<lparr>title = ''Focus Reminder'',
       message = ''Looks like you're watching videos. Time to refocus?'',
       sound = False\<rparr>"
    by (simp add: sample_off_task_def send_gentle_def py_or_def gentle_fallback_def)
  show ?thesis
    using h h' a b c by simp
qed

text \<open>
  C10. A fresh notifier has \<open>last_notification_time = 0\<close>. So when the clock reads at least
  \<open>notification_cooldown\<close> seconds, the first off-task sample of the process, after any
  number of samples of another status, dispatches an alert: it is the only alert of the
  sequence, and the cooldown runs from it.
\<close>

theorem first_off_task_dispatches:
  assumes "\<forall>c \<in> set cs. status (fst (snd c)) \<noteq> OFF_TASK"
      and "status result = OFF_TASK"
      and "real_of_int (notification_cooldown config) \<le> now"
  shows "last_notification_time Notifier_init = 0
         \<and> run_cycles config Notifier_init (cs @ [(now, result, d)]) =
             (\<lparr>last_notification_time = now, escalation_start = Some now\<rparr>,
              [(now, if escalation_delay config \<le> 0 then send_urgent result d
                     else send_gentle result)])"
proof -
  have "run_cycles config Notifier_init cs = (Notifier_init, [])"
    using assms(1) by (rule run_cycles_not_off_task) (simp add: Notifier_init_def)
  moreover have "notify_if_needed config now Notifier_init result d =
      (\<lparr>last_notification_time = now, escalation_start = Some now\<rparr>,
       Some (if escalation_delay config \<le> 0 then send_urgent result d else send_gentle result))"
    using notify_dispatch [of result config now Notifier_init d] assms(2,3)
    by (simp add: Notifier_init_def)
  ultimately show ?thesis
    by (simp add: run_cycles_append) (simp add: Notifier_init_def)
qed

text \<open>
  The theorem on an on-task sample at 1000 seconds and an off-task sample at 1030 seconds.
\<close>

theorem first_off_task_dispatches_witness:
  "status sample_on_task \<noteq> OFF_TASK
   \<and> status sample_off_task = OFF_TASK
   \<and> real_of_int (notification_cooldown default_config) \<le> 1030
   \<and> run_cycles default_config Notifier_init
        [(1000, sample_on_task, 0), (1030, sample_off_task, 0)] =
       (\<lparr>last_notification_time = 1030, escalation_start = Some 1030\<rparr>,
        [(1030, \<lparr>title = ''Focus Reminder'',
                 message = ''Looks like you're watching videos. Time to refocus?'',
                 sound = False\<rparr>)])"
proof -
  have h1: "\<forall>c \<in> set [(1000::real, sample_on_task, 0::real)]. status (fst (snd c)) \<noteq> OFF_TASK"
    by (simp add: sample_on_task_def)
  have h2: "status sample_off_task = OFF_TASK"
    by (simp add: sample_off_task_def)
  have h3: "real_of_int (notification_cooldown default_config) \<le> 1030"
    by (simp add: default_config_def)
  show ?thesis
    using h1 h2 h3 first_off_task_dispatches [OF h1 h2 h3, of 0]
    by (simp add: default_config_def sample_off_task_def send_gentle_def py_or_def
          gentle_fallback_def)
qed

subsection \<open>Streaks\<close>

lemma streak_scan_takeWhile:
  "streak_scan cur start rs =
     (if takeWhile (\<lambda>r. status r = cur) rs = [] then start
      else timestamp (last (takeWhile (\<lambda>r. status r = cur) rs)))"
  by (induction rs arbitrary: start) auto

lemma trailing_run_Cons:
  assumes "hist \<noteq> []"
  shows "trailing_run hist =
     last hist # takeWhile (\<lambda>r. status r = status (last hist)) (rev (butlast hist))"
proof -
  have rv: "rev hist = last hist # rev (butlast hist)"
    using assms by (cases hist rule: rev_cases) simp_all
  show ?thesis
    unfolding trailing_run_def by (subst rv) simp
qed

lemma get_current_streak_run:
  assumes "hist \<noteq> []"
  shows "get_current_streak now hist =
     (status (last hist), total_seconds (now - timestamp (last (trailing_run hist))))"
  using assms
  by (simp add: get_current_streak_def Let_def streak_scan_takeWhile trailing_run_Cons)

lemma trailing_run_index:
  assumes "hist \<noteq> []"
  defines "k \<equiv> length hist - length (trailing_run hist)"
  shows "k < length hist"
    and "last (trailing_run hist) = hist ! k"
    and "\<forall>i. k \<le> i \<and> i < length hist \<longrightarrow> status (hist ! i) = status (last hist)"
    and "0 < k \<longrightarrow> status (hist ! (k - 1)) \<noteq> status (last hist)"
proof -
  let ?P = "\<lambda>r. status r = status (last hist)"
  let ?n = "length (trailing_run hist)"
  have n_pos: "0 < ?n"
    using assms(1) by (simp add: trailing_run_Cons)
  have n_le: "?n \<le> length hist"
    using length_takeWhile_le [of ?P "rev hist"] by (simp add: trailing_run_def)
  show k_lt: "k < length hist"
    using n_pos n_le assms(1) by (simp add: k_def)
  have "last (trailing_run hist) = trailing_run hist ! (?n - 1)"
    using n_pos by (simp add: last_conv_nth)
  also have "\<dots> = rev hist ! (?n - 1)"
    unfolding trailing_run_def using n_pos
    by (intro takeWhile_nth) (simp add: trailing_run_def)
  also have "\<dots> = hist ! (length hist - Suc (?n - 1))"
    using n_pos n_le by (intro rev_nth) arith
  also have "length hist - Suc (?n - 1) = k"
    using n_pos by (simp add: k_def)
  finally show "last (trailing_run hist) = hist ! k" .
  show "\<forall>i. k \<le> i \<and> i < length hist \<longrightarrow> status (hist ! i) = status (last hist)"
  proof (intro allI impI)
    fix i assume i: "k \<le> i \<and> i < length hist"
    let ?j = "length hist - Suc i"
    have j: "?j < ?n"
      using i n_le by (simp add: k_def) arith
    then have "trailing_run hist ! ?j \<in> set (trailing_run hist)"
      by simp
    then have "?P (trailing_run hist ! ?j)"
      unfolding trailing_run_def by (rule set_takeWhileD [THEN conjunct2])
    moreover have "trailing_run hist ! ?j = rev hist ! ?j"
      unfolding trailing_run_def using j by (intro takeWhile_nth) (simp add: trailing_run_def)
    moreover have "rev hist ! ?j = hist ! (length hist - Suc ?j)"
      using i by (intro rev_nth) arith
    moreover have "length hist - Suc ?j = i"
      using i by arith
    ultimately show "status (hist ! i) = status (last hist)"
      by simp
  qed
  show "0 < k \<longrightarrow> status (hist ! (k - 1)) \<noteq> status (last hist)"
  proof
    assume "0 < k"
    then have lt: "?n < length (rev hist)"
      by (simp add: k_def)
    then have "\<not> ?P (rev hist ! ?n)"
      unfolding trailing_run_def by (rule nth_length_takeWhile)
    moreover have "rev hist ! ?n = hist ! (length hist - Suc ?n)"
      using lt by (intro rev_nth) simp
    moreover have "length hist - Suc ?n = k - 1"
      by (simp add: k_def)
    ultimately show "status (hist ! (k - 1)) \<noteq> status (last hist)"
      by simp
  qed
qed

text \<open>
  C5. On an empty log \<open>get_current_streak\<close> returns \<open>(UNKNOWN, 0)\<close>. On a log that is not
  empty it returns the status of the newest record and the seconds from the timestamp of
  the earliest record of the trailing run to now; the trailing run starts at an index
  \<open>k\<close> from which on every record has the status of the newest, and the record before
  \<open>k\<close>, if there is one, has another status. \<open>get_off_task_duration\<close> is that duration
  when the status of the streak is off_task, and 0 otherwise.
\<close>

theorem current_streak:
  "get_current_streak now [] = (UNKNOWN, 0)
   \<and> (hist \<noteq> [] \<longrightarrow>
        get_current_streak now hist =
          (status (last hist), total_seconds (now - timestamp (last (trailing_run hist))))
        \<and> (\<exists>k < length hist.
              last (trailing_run hist) = hist ! k
              \<and> (\<forall>i. k \<le> i \<and> i < length hist \<longrightarrow> status (hist ! i) = status (last hist))
              \<and> (0 < k \<longrightarrow> status (hist ! (k - 1)) \<noteq> status (last hist))))
   \<and> get_off_task_duration now hist =
        (if fst (get_current_streak now hist) = OFF_TASK
         then snd (get_current_streak now hist) else 0)"
proof (intro conjI impI)
  show "get_current_streak now [] = (UNKNOWN, 0)"
    by (simp add: get_current_streak_def)
next
  assume "hist \<noteq> []"
  then show "get_current_streak now hist =
      (status (last hist), total_seconds (now - timestamp (last (trailing_run hist))))"
    by (rule get_current_streak_run)
next
  assume "hist \<noteq> []"
  note idx = trailing_run_index [OF this]
  show "\<exists>k < length hist.
          last (trailing_run hist) = hist ! k
          \<and> (\<forall>i. k \<le> i \<and> i < length hist \<longrightarrow> status (hist ! i) = status (last hist))
          \<and> (0 < k \<longrightarrow> status (hist ! (k - 1)) \<noteq> status (last hist))"
    by (rule exI [of _ "length hist - length (trailing_run hist)"])
      (intro conjI idx)
next
  show "get_off_task_duration now hist =
        (if fst (get_current_streak now hist) = OFF_TASK
         then snd (get_current_streak now hist) else 0)"
    by (cases "get_current_streak now hist") (simp add: get_off_task_duration_def)
qed

text \<open>
  The theorem on the records at 0 s (off_task), 10 s (off_task) and 20 s (on_task): read
  at 20 s the streak is \<open>(ON_TASK, 0)\<close> and the off-task duration 0; without the last
  record, read at 10 s, the streak is \<open>(OFF_TASK, 10)\<close>.
\<close>

theorem current_streak_witness:
  "sample_history \<noteq> []
   \<and> get_current_streak 20000000 sample_history = (ON_TASK, 0)
   \<and> get_off_task_duration 20000000 sample_history = 0
   \<and> get_current_streak 10000000 (butlast sample_history) = (OFF_TASK, 10)
   \<and> get_off_task_duration 10000000 (butlast sample_history) = 10"
proof -
  have ne: "sample_history \<noteq> []" "butlast sample_history \<noteq> []"
    by (simp_all add: sample_history_def)
  have run1: "trailing_run sample_history = [sample_history ! 2]"
    by (simp add: trailing_run_def sample_history_def)
  have run2: "trailing_run (butlast sample_history) = [sample_history ! 1, sample_history ! 0]"
    by (simp add: trailing_run_def sample_history_def)
  from current_streak [of 20000000 sample_history] ne(1)
  have "get_current_streak 20000000 sample_history =
      (status (last sample_history),
       total_seconds (20000000 - timestamp (last (trailing_run sample_history))))"
    by blast
  then have a: "get_current_streak 20000000 sample_history = (ON_TASK, 0)"
    by (simp only: run1) (simp add: sample_history_def total_seconds_0 total_seconds_10)
  from current_streak [of 10000000 "butlast sample_history"] ne(2)
  have "get_current_streak 10000000 (butlast sample_history) =
      (status (last (butlast sample_history)),
       total_seconds (10000000 - timestamp (last (trailing_run (butlast sample_history)))))"
    by blast
  then have b: "get_current_streak 10000000 (butlast sample_history) = (OFF_TASK, 10)"
    by (simp only: run2) (simp add: sample_history_def total_seconds_0 total_seconds_10)
  from current_streak [of 20000000 sample_history]
  have "get_off_task_duration 20000000 sample_history =
        (if fst (get_current_streak 20000000 sample_history) = OFF_TASK
         then snd (get_current_streak 20000000 sample_history) else 0)"
    by blast
  then have c: "get_off_task_duration 20000000 sample_history = 0"
    by (simp only: a) simp
  from current_streak [of 10000000 "butlast sample_history"]
  have "get_off_task_duration 10000000 (butlast sample_history) =
        (if fst (get_current_streak 10000000 (butlast sample_history)) = OFF_TASK
         then snd (get_current_streak 10000000 (butlast sample_history)) else 0)"
    by blast
  then have d: "get_off_task_duration 10000000 (butlast sample_history) = 10"
    by (simp only: b) simp
  show ?thesis
    using ne a b c d by blast
qed

subsection \<open>Recording and pruning\<close>

lemma nat_max_diff: "0 < m \<Longrightarrow> nat (max 0 (int n - m)) = n - nat m"
  by (simp add: max_def) linarith

lemma slice_from_neg: "0 < m \<Longrightarrow> slice_from (- m) xs = drop (length xs - nat m) xs"
  by (simp add: slice_from_def nat_max_diff)

lemma set_slice_from: "set (slice_from k xs) \<subseteq> set xs"
  by (simp add: slice_from_def set_drop_subset)

lemma prune_history_cutoff:
  assumes "r \<in> set (prune_history config now hist)"
  shows "now - timedelta_seconds (history_window config) \<le> timestamp r"
proof -
  let ?kept = "filter (\<lambda>r. now - timedelta_seconds (history_window config) \<le> timestamp r) hist"
  have "set (prune_history config now hist) \<subseteq> set ?kept"
    using set_slice_from [of "- max_history_entries config" ?kept]
    by (simp add: prune_history_def Let_def)
  with assms have "r \<in> set ?kept"
    by blast
  then show ?thesis
    by simp
qed

lemma prune_history_drop:
  assumes "1 \<le> max_history_entries config"
  shows "prune_history config now hist =
     (let kept = filter (\<lambda>r. now - timedelta_seconds (history_window config) \<le> timestamp r) hist
      in drop (length kept - nat (max_history_entries config)) kept)"
proof -
  let ?kept = "filter (\<lambda>r. now - timedelta_seconds (history_window config) \<le> timestamp r) hist"
  have pos: "0 < max_history_entries config"
    using assms by simp
  show ?thesis
  proof (cases "max_history_entries config < int (length ?kept)")
    case True
    then show ?thesis
      by (simp add: prune_history_def Let_def slice_from_neg [OF pos])
  next
    case False
    then have "length ?kept - nat (max_history_entries config) = 0"
      by linarith
    with False show ?thesis
      by (simp add: prune_history_def Let_def)
  qed
qed

lemma prune_history_length:
  assumes "1 \<le> max_history_entries config"
  shows "int (length (prune_history config now hist)) \<le> max_history_entries config"
proof -
  let ?kept = "filter (\<lambda>r. now - timedelta_seconds (history_window config) \<le> timestamp r) hist"
  have "length (prune_history config now hist)
      = length ?kept - (length ?kept - nat (max_history_entries config))"
    by (simp add: prune_history_drop [OF assms] Let_def)
  then show ?thesis
    using assms by linarith
qed

lemma tracker_record_Inr:
  "tracker_record config now ok self result =
     Inr \<lparr>history = prune_history config now (history self @ [from_analysis result]),
          log_file = (if ok then log_file self @ [from_analysis result] else log_file self)\<rparr>"
  by (simp add: tracker_record_def append_log_def open_append_def Let_def)

lemma record_all_snoc:
  "record_all config self (cs @ [(now, ok, result)]) =
     (case record_all config self cs of
        Inl e \<Rightarrow> Inl e
      | Inr self' \<Rightarrow> tracker_record config now ok self' result)"
proof (induction cs arbitrary: self)
  case Nil
  show ?case
    by (simp add: tracker_record_Inr)
next
  case (Cons c cs)
  obtain now' ok' result' where c: "c = (now', ok', result')"
    by (cases c) auto
  show ?case
    by (simp add: c tracker_record_Inr Cons.IH)
qed

lemma record_all_Inr: "\<exists>self'. record_all config self cs = Inr self'"
proof (induction cs arbitrary: self)
  case Nil
  show ?case by simp
next
  case (Cons c cs)
  obtain now' ok' result' where c: "c = (now', ok', result')"
    by (cases c) auto
  show ?case
    by (simp add: c tracker_record_Inr Cons.IH)
qed

lemma sample_record_run:
  "record_all small_config ActivityTracker_init
     ([(timedelta_seconds 0, True, sample_at 0),
       (timedelta_seconds 1000, False, sample_at 1000),
       (timedelta_seconds 1900, True, sample_at 1900)]
      @ [(timedelta_seconds 2000, True, sample_at 2000)]) =
   Inr \<lparr>history = [from_analysis (sample_at 1900), from_analysis (sample_at 2000)],
        log_file = [from_analysis (sample_at 0), from_analysis (sample_at 1900),
                    from_analysis (sample_at 2000)]\<rparr>"
  by (simp add: tracker_record_Inr prune_history_def slice_from_def Let_def
        small_config_def default_config_def ActivityTracker_init_def
        timedelta_seconds_def sample_at_def sample_off_task_def from_analysis_def)

text \<open>
  C4, as the code has it. The history is pruned by \<open>record\<close>, with the clock reading of
  that call, and by nothing else. So after every sequence of \<open>record\<close> calls, with
  \<open>now\<close> the clock reading of the last call: every retained record has a timestamp within
  \<open>history_window\<close> seconds before \<open>now\<close>, and, for a cap \<open>max_history_entries\<close> of at
  least 1, at most that many records are retained. The pruning filters by the time cutoff
  first and then keeps the newest \<open>max_history_entries\<close> records of what is left.
\<close>

theorem record_prunes:
  "\<exists>self1 self2.
     record_all config self cs = Inr self1
     \<and> record_all config self (cs @ [(now, ok, result)]) = Inr self2
     \<and> history self2 = prune_history config now (history self1 @ [from_analysis result])
     \<and> (\<forall>r \<in> set (history self2).
           now - timedelta_seconds (history_window config) \<le> timestamp r)
     \<and> (1 \<le> max_history_entries config \<longrightarrow>
           int (length (history self2)) \<le> max_history_entries config
           \<and> history self2 =
               (let kept = filter (\<lambda>r. now - timedelta_seconds (history_window config)
                                          \<le> timestamp r)
                             (history self1 @ [from_analysis result])
                in drop (length kept - nat (max_history_entries config)) kept))"
proof -
  obtain self1 where s1: "record_all config self cs = Inr self1"
    using record_all_Inr by blast
  define self2 where "self2 =
     \<lparr>history = prune_history config now (history self1 @ [from_analysis result]),
      log_file = (if ok then log_file self1 @ [from_analysis result] else log_file self1)\<rparr>"
  have h2: "history self2 = prune_history config now (history self1 @ [from_analysis result])"
    by (simp add: self2_def)
  have s2: "record_all config self (cs @ [(now, ok, result)]) = Inr self2"
    unfolding record_all_snoc s1 self2_def by (simp add: tracker_record_Inr)
  have a: "\<forall>r \<in> set (history self2).
           now - timedelta_seconds (history_window config) \<le> timestamp r"
    unfolding h2 by (blast intro: prune_history_cutoff)
  have b: "1 \<le> max_history_entries config \<longrightarrow>
           int (length (history self2)) \<le> max_history_entries config
           \<and> history self2 =
               (let kept = filter (\<lambda>r. now - timedelta_seconds (history_window config)
                                          \<le> timestamp r)
                             (history self1 @ [from_analysis result])
                in drop (length kept - nat (max_history_entries config)) kept)"
    unfolding h2 using prune_history_length prune_history_drop by blast
  from s1 s2 h2 a b show ?thesis
    by blast
qed

text \<open>
  The theorem with a cap of 2 and the window of 1800 s, on records at 0, 1000, 1900 and
  2000 s: the cutoff at 200 s drops the first, the cap the second.
\<close>

theorem record_prunes_witness:
  "1 \<le> max_history_entries small_config
   \<and> (\<exists>self2.
        record_all small_config ActivityTracker_init
          ([(timedelta_seconds 0, True, sample_at 0),
            (timedelta_seconds 1000, False, sample_at 1000),
            (timedelta_seconds 1900, True, sample_at 1900)]
           @ [(timedelta_seconds 2000, True, sample_at 2000)]) = Inr self2
        \<and> history self2 = [from_analysis (sample_at 1900), from_analysis (sample_at 2000)]
        \<and> int (length (history self2)) \<le> max_history_entries small_config
        \<and> list_all (\<lambda>r. timedelta_seconds 2000 - timedelta_seconds (history_window small_config)
                          \<le> timestamp r) (history self2))"
proof -
  have h: "1 \<le> max_history_entries small_config"
    by (simp add: small_config_def)
  obtain self2 where
    run: "record_all small_config ActivityTracker_init
          ([(timedelta_seconds 0, True, sample_at 0),
            (timedelta_seconds 1000, False, sample_at 1000),
            (timedelta_seconds 1900, True, sample_at 1900)]
           @ [(timedelta_seconds 2000, True, sample_at 2000)]) = Inr self2"
    and cut: "\<forall>r \<in> set (history self2).
           timedelta_seconds 2000 - timedelta_seconds (history_window small_config)
             \<le> timestamp r"
    and cap: "1 \<le> max_history_entries small_config \<longrightarrow>
           int (length (history self2)) \<le> max_history_entries small_config
"
    using record_prunes [unfolded Let_def, of small_config ActivityTracker_init
        "[(timedelta_seconds 0, True, sample_at 0),
          (timedelta_seconds 1000, False, sample_at 1000),
          (timedelta_seconds 1900, True, sample_at 1900)]"
        "timedelta_seconds 2000" True "sample_at 2000"]
    by blast
  from run have "history self2 = [from_analysis (sample_at 1900), from_analysis (sample_at 2000)]"
    unfolding sample_record_run by auto
  moreover from cap h have "int (length (history self2)) \<le> max_history_entries small_config"
    by blast
  moreover from cut have "list_all (\<lambda>r. timedelta_seconds 2000
        - timedelta_seconds (history_window small_config) \<le> timestamp r) (history self2)"
    by (simp only: list_all_iff)
  ultimately show ?thesis
    using h run by blast
qed

text \<open>
  A read that is not preceded by a \<open>record\<close> call sees records older than the window: the
  record of time 0 is still in the history at 2000 s, with the default window of 1800 s,
  and the streak read then counts its 2000 s.
\<close>

theorem stale_record_at_read:
  "record_all default_config ActivityTracker_init [(timedelta_seconds 0, True, sample_at 0)] =
     Inr \<lparr>history = [from_analysis (sample_at 0)], log_file = [from_analysis (sample_at 0)]\<rparr>
   \<and> timestamp (from_analysis (sample_at 0))
       < timedelta_seconds 2000 - timedelta_seconds (history_window default_config)
   \<and> get_current_streak (timedelta_seconds 2000) [from_analysis (sample_at 0)] = (OFF_TASK, 2000)"
  by (simp add: tracker_record_Inr prune_history_def slice_from_def Let_def
        default_config_def ActivityTracker_init_def get_current_streak_def total_seconds_2000
        timedelta_seconds_def sample_at_def sample_off_task_def from_analysis_def)

text \<open>
  C9. The write of the daily summary is not guarded: when the operating system refuses
  it, \<open>generate_today\<close> ends with \<^verbatim>\<open>OSError\<close> and returns no summary, where a successful
  write returns the summary and stores it. The append to the activity log is guarded:
  \<open>record\<close> returns in both cases, with the same history, and only the log differs.
\<close>

theorem summary_write_failure_raises:
  "generate_today False store today records = Inl OSError
   \<and> generate_today True store today records =
       Inr ((build_summary today records)
              \<lparr>ranking := rank store today (score (build_summary today records))\<rparr>,
            store(today := Some ((build_summary today records)
              \<lparr>ranking := rank store today (score (build_summary today records))\<rparr>)))
   \<and> tracker_record config now False self result =
       Inr \<lparr>history = prune_history config now (history self @ [from_analysis result]),
            log_file = log_file self\<rparr>
   \<and> tracker_record config now True self result =
       Inr \<lparr>history = prune_history config now (history self @ [from_analysis result]),
            log_file = log_file self @ [from_analysis result]\<rparr>"
  by (simp add: generate_today_def save_def Let_def tracker_record_Inr)

subsection \<open>Budgets\<close>

lemma budget_step_fold:
  "n \<le> length hist \<Longrightarrow>
   foldl (budget_step config cutoff pl hist) acc [0..<n] =
   foldl (\<lambda>acc x. fadd acc (to_float x)) acc
     (map (estimated_duration config hist)
        (filter (\<lambda>i. cutoff \<le> timestamp (hist ! i)
                     \<and> sublist pl (lower (activity_description (hist ! i))))
           [0..<n]))"
proof (induction n)
  case 0
  show ?case by simp
next
  case (Suc n)
  then show ?case
    by (simp add: budget_step_def estimated_duration_def Let_def not_less)
qed

lemma budget_total_minutes_estimate:
  "budget_total_minutes config now hist budget = estimated_minutes config now hist budget"
  by (simp add: budget_total_minutes_def estimated_minutes_def window_minutes_def
      float_sum_def budget_step_fold since_cutoff_def matches_budget_def Let_def)

lemma foldl_collect:
  "foldl (\<lambda>acc b. if P b then acc @ [f b] else acc) acc bs = acc @ map f (filter P bs)"
  by (induction bs arbitrary: acc) simp_all

lemma check_budgets_fold:
  "check_budgets config now hist budgets =
     map (\<lambda>b. violation_text b (estimated_minutes config now hist b))
       (filter (\<lambda>b. of_int (max_minutes b) < exact_value (estimated_minutes config now hist b))
          budgets)"
  unfolding check_budgets_def Let_def budget_total_minutes_estimate
  by (simp add: foldl_collect)

lemma to_lower_full_ascii:
  "c < 128 \<Longrightarrow> to_lower_full c = [if 65 \<le> c \<and> c \<le> 90 then c + 32 else c]"
  by (auto simp: to_lower_full_def lower_runs_def)

lemma utf8_decode_ascii: "list_all (\<lambda>b. b < 128) bs \<Longrightarrow> utf8_decode bs = bs"
  by (induction bs) simp_all

lemma do_lower_ascii:
  "list_all (\<lambda>b. b < 128) cs \<Longrightarrow>
   do_lower before cs = map (\<lambda>c. if 65 \<le> c \<and> c \<le> 90 then c + 32 else c) cs"
  by (induction cs arbitrary: before) (simp_all add: to_lower_full_ascii)

lemma lower_ascii: "is_ascii s \<Longrightarrow> lower s = map small_letter s"
proof -
  assume "is_ascii s"
  then have a: "list_all (\<lambda>b. b < 128) (map of_char s :: nat list)"
    by (simp add: is_ascii_def list_all_iff)
  show ?thesis
    unfolding lower_def code_points_def utf8_decode_ascii [OF a] do_lower_ascii [OF a]
    by (simp add: small_letter_def capital_def)
qed

lemma small_letter_eq_iff: "small_letter a = small_letter b \<longleftrightarrow> same_letter a b"
  by (auto simp: small_letter_def same_letter_def capital_def)

lemma map_small_letter_eq_iff:
  "map small_letter p = map small_letter s \<longleftrightarrow> list_all2 same_letter p s"
proof (induction p arbitrary: s)
  case Nil
  show ?case by simp
next
  case (Cons a p)
  then show ?case
    by (cases s) (simp_all add: small_letter_eq_iff)
qed

lemma sublist_small_letter:
  "sublist (map small_letter p) (map small_letter t) \<longleftrightarrow> occurs_ignoring_case p t"
proof
  assume "sublist (map small_letter p) (map small_letter t)"
  then obtain ps ss where "map small_letter t = ps @ map small_letter p @ ss"
    unfolding sublist_def by blast
  then obtain b rest where t: "t = b @ rest"
    and "map small_letter p @ ss = map small_letter rest"
    unfolding map_eq_append_conv by blast
  then obtain st a where rest: "rest = st @ a" and "map small_letter p = map small_letter st"
    unfolding append_eq_map_conv by blast
  then have "list_all2 same_letter p st"
    by (simp add: map_small_letter_eq_iff)
  with t rest show "occurs_ignoring_case p t"
    unfolding occurs_ignoring_case_def by blast
next
  assume "occurs_ignoring_case p t"
  then obtain b st a where "t = b @ st @ a" and "list_all2 same_letter p st"
    unfolding occurs_ignoring_case_def by blast
  then have "t = b @ st @ a" and "map small_letter p = map small_letter st"
    by (simp_all only: map_small_letter_eq_iff)
  then have "map small_letter t = map small_letter b @ map small_letter p @ map small_letter a"
    by simp
  then show "sublist (map small_letter p) (map small_letter t)"
    unfolding sublist_def by blast
qed

lemma matches_budget_ascii:
  "is_ascii (activity_pattern budget) \<Longrightarrow> is_ascii (activity_description r) \<Longrightarrow>
   matches_budget budget r
     = occurs_ignoring_case (activity_pattern budget) (activity_description r)"
  by (simp add: matches_budget_def lower_ascii sublist_small_letter)

lemma window_minutes_cong:
  "(\<And>r. r \<in> set hist \<Longrightarrow> w r = w' r) \<Longrightarrow>
   window_minutes w config hist budget = window_minutes w' config hist budget"
proof -
  assume a: "\<And>r. r \<in> set hist \<Longrightarrow> w r = w' r"
  have "filter (\<lambda>i. w (hist ! i) \<and> matches_budget budget (hist ! i)) [0..<length hist]
      = filter (\<lambda>i. w' (hist ! i) \<and> matches_budget budget (hist ! i)) [0..<length hist]"
    by (rule filter_cong) (simp_all add: a)
  then show ?thesis
    by (simp add: window_minutes_def)
qed

lemma estimated_is_claimed:
  "\<forall>r \<in> set hist. timestamp r \<le> now \<Longrightarrow>
   estimated_minutes config now hist budget = claimed_minutes config now hist budget"
  unfolding estimated_minutes_def claimed_minutes_def
  by (rule window_minutes_cong) (simp add: since_cutoff_def in_window_def)

lemma fl_budget:
  "fl 30 = 30" "fl 60 = 60" "fl 300 = 300" "fl 330 = 330" "fl (11 / 2) = 11 / 2"
  "fl 600 = 600" "fl 570 = 570" "fl (19 / 2) = 19 / 2"
  "fl (4503599627370497 / 4503599627370496) = 4503599627370497 / 4503599627370496"
  by code_simp+

lemma round_budget:
  "round_half_even (11 / 2) = 6" "round_half_even (19 / 2) = 10" "round_half_even 10 = 10"
  "round_half_even (4503599627370497 / 4503599627370496) = 1"
  by code_simp+

lemma str_small: "str_nat 6 = ''6''" "str_nat 10 = ''10''" "str_nat 1 = ''1''"
  "str_int 1 = ''1''" "str_int 5 = ''5''"
  by (simp_all add: str_int_def)

lemma lower_youtube:
  "lower ''YouTube'' = [121, 111, 117, 116, 117, 98, 101]"
  "lower ''youtube'' = [121, 111, 117, 116, 117, 98, 101]"
  "lower ''Watching YouTube'' = map of_char ''watching youtube''"
  "lower ''youtube shorts'' = map of_char ''youtube shorts''"
  "lower ''YOUTUBE live'' = map of_char ''youtube live''"
  "lower ''watching youtube'' = map of_char ''watching youtube''"
  "lower ''YouTube - music'' = map of_char ''youtube - music''"
  "lower ''writing code'' = map of_char ''writing code''"
  by (simp_all add: lower_def code_points_def to_lower_full_ascii)

lemma lower_cafe:
  "lower cafe_pattern = [99, 97, 102, 233]"
  "lower [CHR ''c'', CHR ''a'', CHR ''f'', CHR 0xC3, CHR 0xA9, CHR '' '', CHR ''t'', CHR ''i'',
          CHR ''m'', CHR ''e'']
     = [99, 97, 102, 233, 32, 116, 105, 109, 101]"
  by (simp_all add: lower_def code_points_def cafe_pattern_def to_lower_full_def lower_runs_def)

lemma youtube_durations:
  "map (estimated_duration default_config youtube_history)
     (filter (\<lambda>i. since_cutoff 300000000 (budget_of ''YouTube'' cap) (youtube_history ! i)
                  \<and> matches_budget (budget_of ''YouTube'' cap) (youtube_history ! i))
        [0..<length youtube_history])
   = [PyFloat (total_seconds_float 300000000), PyInt 30]"
  by (simp add: youtube_history_def seen_def budget_of_def since_cutoff_def matches_budget_def
      lower_youtube sublist_code prefix_code estimated_duration_def timedelta_minutes_def
      default_config_def)

lemma youtube_estimate:
  "estimated_minutes default_config 300000000 youtube_history (budget_of ''YouTube'' cap)
   = float_of (11 / 2)"
  unfolding estimated_minutes_def window_minutes_def youtube_durations
  by (simp add: fdiv_def float_sum_def fadd_def total_seconds_float_def exact_value_float_of
      float_of_eq_iff fl_0 fl_budget)

lemma minute_durations:
  "map (estimated_duration default_config minute_history)
     (filter (\<lambda>i. since_cutoff 60000000 (budget_of ''youtube'' cap) (minute_history ! i)
                  \<and> matches_budget (budget_of ''youtube'' cap) (minute_history ! i))
        [0..<length minute_history])
   = [PyFloat (total_seconds_float 16300000), PyFloat (total_seconds_float 26400000),
      PyFloat (total_seconds_float 15200000), PyFloat (total_seconds_float 2100000)]"
  by (simp add: minute_history_def seen_def budget_of_def since_cutoff_def matches_budget_def
      lower_youtube sublist_code prefix_code estimated_duration_def timedelta_minutes_def
      default_config_def)

lemma minute_estimate:
  "estimated_minutes default_config 60000000 minute_history (budget_of ''youtube'' cap)
   = float_of (4503599627370497 / 4503599627370496)"
  unfolding estimated_minutes_def window_minutes_def minute_durations
  unfolding fdiv_def float_sum_def foldl.simps to_float.simps fadd_def total_seconds_float_def
    py_truediv.simps exact_value_float_of float_of_eq_iff
  by code_simp

lemma cafe_durations:
  "map (estimated_duration default_config cafe_history)
     (filter (\<lambda>i. since_cutoff 600000000 (budget_of cafe_pattern cap) (cafe_history ! i)
                  \<and> matches_budget (budget_of cafe_pattern cap) (cafe_history ! i))
        [0..<length cafe_history])
   = [PyFloat (total_seconds_float 600000000)]"
  by (simp add: cafe_history_def seen_def budget_of_def since_cutoff_def matches_budget_def
      lower_youtube lower_cafe sublist_code prefix_code estimated_duration_def
      timedelta_minutes_def default_config_def)

lemma cafe_estimate:
  "estimated_minutes default_config 600000000 cafe_history (budget_of cafe_pattern cap)
   = float_of 10"
  unfolding estimated_minutes_def window_minutes_def cafe_durations
  by (simp add: fdiv_def float_sum_def fadd_def total_seconds_float_def exact_value_float_of
      float_of_eq_iff fl_0 fl_budget fl_10)

lemma late_durations:
  "map (estimated_duration default_config late_history)
     (filter (\<lambda>i. since_cutoff 300000000 (budget_of ''youtube'' cap) (late_history ! i)
                  \<and> matches_budget (budget_of ''youtube'' cap) (late_history ! i))
        [0..<length late_history])
   = [PyFloat (total_seconds_float 570000000)]"
  by (simp add: late_history_def seen_def budget_of_def since_cutoff_def matches_budget_def
      lower_youtube sublist_code prefix_code estimated_duration_def timedelta_minutes_def
      default_config_def)

lemma late_estimate:
  "estimated_minutes default_config 300000000 late_history (budget_of ''youtube'' cap)
   = float_of (19 / 2)"
  unfolding estimated_minutes_def window_minutes_def late_durations
  by (simp add: fdiv_def float_sum_def fadd_def total_seconds_float_def exact_value_float_of
      float_of_eq_iff fl_0 fl_budget)

lemma late_claimed:
  "claimed_minutes default_config 300000000 late_history (budget_of ''youtube'' cap)
   = float_of 0"
  by (simp add: claimed_minutes_def window_minutes_def late_history_def seen_def budget_of_def
      in_window_def matches_budget_def lower_youtube sublist_code prefix_code
      timedelta_minutes_def fdiv_def float_sum_def exact_value_float_of float_of_eq_iff fl_0)

lemma violation_texts:
  "violation_text (budget_of ''YouTube'' 5) (float_of (11 / 2)) = ''YouTube: 6/5 min used''"
  "violation_text (budget_of ''youtube'' 1) (float_of (4503599627370497 / 4503599627370496))
     = ''youtube: 1/1 min used''"
  "violation_text (budget_of cafe_pattern 5) (float_of 10) = cafe_pattern @ '': 10/5 min used''"
  "violation_text (budget_of ''youtube'' 5) (float_of (19 / 2)) = ''youtube: 10/5 min used''"
  by (simp_all add: violation_text_def format_0f_def budget_of_def exact_value_float_of
      fl_budget fl_10 round_budget str_small)

text \<open>
  C6, as the code has it. \<^verbatim>\<open>check_budgets\<close> returns, in the order of the budgets, the
  violation text of exactly the budgets whose estimate strictly exceeds \<^verbatim>\<open>max_minutes\<close>.
  The estimate of a budget is the float sum, in the order of the log and divided by 60, of
  the estimated durations of the records that are not older than \<open>now - per_minutes\<close> and
  whose description, in lower case, contains the pattern, in lower case; the estimated
  duration of a record is the gap to the next record of the log, and the nominal interval
  for the last one. For ASCII text the containment is containment letter by letter without
  regard to case. The window has no upper end: when no record is stamped later than \<open>now\<close>,
  it is the window \<open>[now - per_minutes, now]\<close>.
\<close>

theorem check_budgets_estimate:
  "check_budgets config now hist budgets =
     map (\<lambda>b. violation_text b (estimated_minutes config now hist b))
       (filter (\<lambda>b. of_int (max_minutes b) < exact_value (estimated_minutes config now hist b))
          budgets)
   \<and> (is_ascii (activity_pattern budget) \<and> is_ascii (activity_description r) \<longrightarrow>
        matches_budget budget r
          = occurs_ignoring_case (activity_pattern budget) (activity_description r))
   \<and> ((\<forall>r \<in> set hist. timestamp r \<le> now) \<longrightarrow>
        estimated_minutes config now hist budget = claimed_minutes config now hist budget)"
  using check_budgets_fold [of config now hist budgets] matches_budget_ascii [of budget r]
    estimated_is_claimed [of hist now config budget]
  by blast

text \<open>
  The theorem on two matching records at 0 and 5 minutes, read at 5 minutes with the
  nominal interval of 30 s: the estimate is 5.5 minutes, which violates a cap of 5 and not
  a cap of 6. On four matching records and one that does not match, with gaps of 16.3 s,
  26.4 s, 15.2 s and 2.1 s: the float sum of the gaps is above 60, and a cap of 1 minute is
  violated. On a pattern and a description with a letter outside ASCII.
\<close>

theorem check_budgets_estimate_witness:
  "check_budgets default_config 300000000 youtube_history
       [budget_of ''YouTube'' 5, budget_of ''YouTube'' 6] = [''YouTube: 6/5 min used'']
   \<and> estimated_minutes default_config 300000000 youtube_history (budget_of ''YouTube'' 5)
       = float_of (11 / 2)
   \<and> claimed_minutes default_config 300000000 youtube_history (budget_of ''YouTube'' 5)
       = float_of (11 / 2)
   \<and> occurs_ignoring_case ''YouTube'' ''Watching YouTube''
   \<and> \<not> occurs_ignoring_case ''youtube'' ''writing code''
   \<and> check_budgets default_config 60000000 minute_history [budget_of ''youtube'' 1]
       = [''youtube: 1/1 min used'']
   \<and> exact_value (estimated_minutes default_config 60000000 minute_history
                     (budget_of ''youtube'' 1))
       = 4503599627370497 / 4503599627370496
   \<and> check_budgets default_config 600000000 cafe_history [budget_of cafe_pattern 5]
       = [cafe_pattern @ '': 10/5 min used'']"
proof -
  note est = check_budgets_estimate
  have a: "check_budgets default_config 300000000 youtube_history
       [budget_of ''YouTube'' 5, budget_of ''YouTube'' 6] = [''YouTube: 6/5 min used'']"
    using est [of default_config 300000000 youtube_history
        "[budget_of ''YouTube'' 5, budget_of ''YouTube'' 6]" "budget_of ''YouTube'' 5"
        "seen 0 ''Watching YouTube''"]
    by (simp add: youtube_estimate exact_value_float_of fl_budget violation_texts)
      (simp add: budget_of_def)
  have "\<forall>r \<in> set youtube_history. timestamp r \<le> 300000000"
    by (simp add: youtube_history_def seen_def)
  with est [of default_config 300000000 youtube_history "[]" "budget_of ''YouTube'' 5"
      "seen 0 ''Watching YouTube''"]
  have b: "claimed_minutes default_config 300000000 youtube_history (budget_of ''YouTube'' 5)
       = float_of (11 / 2)"
    by (simp add: youtube_estimate)
  have asc: "is_ascii ''YouTube''" "is_ascii ''Watching YouTube''" "is_ascii ''youtube''"
    "is_ascii ''writing code''"
    by (simp_all add: is_ascii_def)
  have "matches_budget (budget_of ''YouTube'' 5) (seen 0 ''Watching YouTube'')"
    by (simp add: matches_budget_def budget_of_def seen_def lower_youtube sublist_code
        prefix_code)
  with est [of default_config 0 "[]" "[]" "budget_of ''YouTube'' 5"
      "seen 0 ''Watching YouTube''"] asc
  have c: "occurs_ignoring_case ''YouTube'' ''Watching YouTube''"
    by (simp add: budget_of_def seen_def)
  have "\<not> matches_budget (budget_of ''youtube'' 1) (seen 60000000 ''writing code'')"
    by (simp add: matches_budget_def budget_of_def seen_def lower_youtube sublist_code
        prefix_code)
  with est [of default_config 0 "[]" "[]" "budget_of ''youtube'' 1"
      "seen 60000000 ''writing code''"] asc
  have d: "\<not> occurs_ignoring_case ''youtube'' ''writing code''"
    by (simp add: budget_of_def seen_def)
  have e: "check_budgets default_config 60000000 minute_history [budget_of ''youtube'' 1]
       = [''youtube: 1/1 min used'']"
    using est [of default_config 60000000 minute_history "[budget_of ''youtube'' 1]"
        "budget_of ''youtube'' 1" "seen 0 ''youtube''"]
    by (simp add: minute_estimate exact_value_float_of fl_budget violation_texts)
      (simp add: budget_of_def)
  have f: "exact_value (estimated_minutes default_config 60000000 minute_history
                     (budget_of ''youtube'' 1))
       = 4503599627370497 / 4503599627370496"
    by (simp add: minute_estimate exact_value_float_of fl_budget)
  have g: "check_budgets default_config 600000000 cafe_history [budget_of cafe_pattern 5]
       = [cafe_pattern @ '': 10/5 min used'']"
    using est [of default_config 600000000 cafe_history "[budget_of cafe_pattern 5]"
        "budget_of cafe_pattern 5" "seen 0 ''youtube''"]
    by (simp add: cafe_estimate exact_value_float_of fl_10 violation_texts)
      (simp add: budget_of_def)
  from a b c d e f g youtube_estimate [of 5] show ?thesis
    by blast
qed

text \<open>
  The window has no upper end. A record stamped after \<open>now\<close> is outside the window
  \<open>[now - per_minutes, now]\<close> and is counted all the same: after the clock was set back,
  the log read at 5 minutes holds a matching record stamped 50 minutes, with a gap of 9.5
  minutes to the next record. No matching record is in the window, the estimate over the
  window is 0 minutes, and the code reports a violation of the cap of 5 minutes.
\<close>

theorem record_after_now_counted:
  "check_budgets default_config 300000000 late_history [budget_of ''youtube'' 5]
     = [''youtube: 10/5 min used'']
   \<and> filter (\<lambda>r. matches_budget (budget_of ''youtube'' 5) r
                  \<and> in_window 300000000 (budget_of ''youtube'' 5) r) late_history = []
   \<and> exact_value (claimed_minutes default_config 300000000 late_history
                     (budget_of ''youtube'' 5)) = 0
   \<and> \<not> of_int (max_minutes (budget_of ''youtube'' 5))
         < exact_value (claimed_minutes default_config 300000000 late_history
                          (budget_of ''youtube'' 5))"
proof -
  have "check_budgets default_config 300000000 late_history [budget_of ''youtube'' 5]
     = [''youtube: 10/5 min used'']"
    by (simp add: check_budgets_fold late_estimate exact_value_float_of fl_budget
        violation_texts)
      (simp add: budget_of_def)
  moreover have "filter (\<lambda>r. matches_budget (budget_of ''youtube'' 5) r
                  \<and> in_window 300000000 (budget_of ''youtube'' 5) r) late_history = []"
    by (simp add: late_history_def seen_def budget_of_def in_window_def matches_budget_def
        lower_youtube sublist_code prefix_code timedelta_minutes_def)
  moreover have "exact_value (claimed_minutes default_config 300000000 late_history
                     (budget_of ''youtube'' 5)) = 0"
    by (simp add: late_claimed exact_value_float_of fl_0)
  moreover have "max_minutes (budget_of ''youtube'' 5) = 5"
    by (simp add: budget_of_def)
  ultimately show ?thesis
    by simp
qed

subsection \<open>The daily score\<close>

lemma score_build_summary:
  "score (build_summary day records) =
     (if 0 < count_status ''on_task'' records + count_status ''off_task'' records
      then py_round1 (PyFloat (fmul
             (py_truediv (PyInt (int (count_status ''on_task'' records)))
                (PyInt (int (count_status ''on_task'' records
                             + count_status ''off_task'' records))))
             (to_float (PyInt 100))))
      else PyInt 50)"
  by (simp add: build_summary_def Let_def)

lemma count_status_filter:
  assumes "s \<noteq> t"
  shows "count_status s (filter (\<lambda>r. dict_get r ''status'' \<noteq> Some (JString t)) records)
     = count_status s records"
proof -
  have "(\<lambda>r. dict_get r ''status'' \<noteq> Some (JString t) \<and> dict_get r ''status'' = Some (JString s))
      = (\<lambda>r. dict_get r ''status'' = Some (JString s))"
    using assms by auto
  then show ?thesis
    by (simp add: count_status_def)
qed

lemma count_status_replicate:
  "count_status s (replicate n (status_entry t) @ rest) =
     (if s = t then n else 0) + count_status s rest"
  by (simp add: count_status_def status_entry_def dict_get_def)

lemma round_score_8_of_10:
  "py_round1 (PyFloat (fmul (py_truediv (PyInt 8) (PyInt 10)) (to_float (PyInt 100))))
     = PyFloat (float_of 80)"
proof -
  have "fl (rat_of_int (round_half_even (fl (fl (8 / 10) * fl 100) * 10)) / 10) = fl 80"
    by code_simp
  then show ?thesis
    by (simp add: fmul_def exact_value_float_of float_of_eq_iff)
qed

lemma round_score_23_of_80:
  "py_round1 (PyFloat (fmul (py_truediv (PyInt 23) (PyInt 80)) (to_float (PyInt 100))))
     = PyFloat (float_of (287 / 10))"
proof -
  have "fl (rat_of_int (round_half_even (fl (fl (23 / 80) * fl 100) * 10)) / 10) = fl (287 / 10)"
    by code_simp
  then show ?thesis
    by (simp add: fmul_def exact_value_float_of float_of_eq_iff)
qed

lemma round_score_1_of_3:
  "py_round1 (PyFloat (fmul (py_truediv (PyInt 1) (PyInt 3)) (to_float (PyInt 100))))
     = PyFloat (float_of (333 / 10))"
proof -
  have "fl (rat_of_int (round_half_even (fl (fl (1 / 3) * fl 100) * 10)) / 10) = fl (333 / 10)"
    by code_simp
  then show ?thesis
    by (simp add: fmul_def exact_value_float_of float_of_eq_iff)
qed

text \<open>
  C7, as the code has it. The score of the summary is the float product
  \<open>on_task / (on_task + off_task) * 100\<close>, each of the two operations rounded to the nearest
  float, rounded by \<^verbatim>\<open>round(x, 1)\<close> to one decimal place; it is the int 50 when the day has
  no on_task and no off_task sample. Samples classified as break are left out of both
  counts: the score is that of the day without them. A day of 8 on_task, 2 off_task and no
  break sample scores 80.0, a day of break samples only scores 50, and a day of 23
  on_task and 57 off_task samples scores 28.7, the float product being just below 28.75.
\<close>

theorem daily_score:
  "score (build_summary day records) =
     (if 0 < count_status ''on_task'' records + count_status ''off_task'' records
      then py_round1 (PyFloat (fmul
             (py_truediv (PyInt (int (count_status ''on_task'' records)))
                (PyInt (int (count_status ''on_task'' records
                             + count_status ''off_task'' records))))
             (to_float (PyInt 100))))
      else PyInt 50)
   \<and> score (build_summary day
         (filter (\<lambda>r. dict_get r ''status'' \<noteq> Some (JString ''break'')) records))
       = score (build_summary day records)
   \<and> score (build_summary day
         (replicate 8 (status_entry ''on_task'') @ replicate 2 (status_entry ''off_task'')))
       = PyFloat (float_of 80)
   \<and> score (build_summary day (replicate n (status_entry ''break''))) = PyInt 50
   \<and> score (build_summary day
         (replicate 23 (status_entry ''on_task'') @ replicate 57 (status_entry ''off_task'')))
       = PyFloat (float_of (287 / 10))"
proof (intro conjI)
  show "score (build_summary day records) =
     (if 0 < count_status ''on_task'' records + count_status ''off_task'' records
      then py_round1 (PyFloat (fmul
             (py_truediv (PyInt (int (count_status ''on_task'' records)))
                (PyInt (int (count_status ''on_task'' records
                             + count_status ''off_task'' records))))
             (to_float (PyInt 100))))
      else PyInt 50)"
    by (rule score_build_summary)
next
  show "score (build_summary day
         (filter (\<lambda>r. dict_get r ''status'' \<noteq> Some (JString ''break'')) records))
       = score (build_summary day records)"
    unfolding score_build_summary by (simp add: count_status_filter)
next
  have "count_status ''on_task''
      (replicate 8 (status_entry ''on_task'') @ replicate 2 (status_entry ''off_task'') @ []) = 8"
    "count_status ''off_task''
      (replicate 8 (status_entry ''on_task'') @ replicate 2 (status_entry ''off_task'') @ []) = 2"
    by (simp_all only: count_status_replicate) (simp_all add: count_status_def)
  then show "score (build_summary day
         (replicate 8 (status_entry ''on_task'') @ replicate 2 (status_entry ''off_task'')))
       = PyFloat (float_of 80)"
    unfolding score_build_summary using round_score_8_of_10 by simp
next
  have "count_status ''on_task'' (replicate n (status_entry ''break'') @ []) = 0"
    "count_status ''off_task'' (replicate n (status_entry ''break'') @ []) = 0"
    by (simp_all only: count_status_replicate) (simp_all add: count_status_def)
  then show "score (build_summary day (replicate n (status_entry ''break''))) = PyInt 50"
    unfolding score_build_summary by simp
next
  have "count_status ''on_task''
      (replicate 23 (status_entry ''on_task'') @ replicate 57 (status_entry ''off_task'') @ []) = 23"
    "count_status ''off_task''
      (replicate 23 (status_entry ''on_task'') @ replicate 57 (status_entry ''off_task'') @ []) = 57"
    by (simp_all only: count_status_replicate) (simp_all add: count_status_def)
  then show "score (build_summary day
         (replicate 23 (status_entry ''on_task'') @ replicate 57 (status_entry ''off_task'')))
       = PyFloat (float_of (287 / 10))"
    unfolding score_build_summary using round_score_23_of_80 by simp
qed

text \<open>
  One on_task and two off_task samples: the score is the float 33.3, which is neither the
  quotient 100/3 nor the float product \<open>1 / 3 * 100\<close>.
\<close>

theorem score_is_rounded:
  "score (build_summary 0
     [status_entry ''on_task'', status_entry ''off_task'', status_entry ''off_task''])
     = PyFloat (float_of (333 / 10))
   \<and> num_value (PyFloat (float_of (333 / 10))) \<noteq> 1 / (1 + 2) * 100
   \<and> float_of (333 / 10)
       \<noteq> fmul (py_truediv (PyInt 1) (PyInt (1 + 2))) (to_float (PyInt 100))"
proof -
  have c: "count_status ''on_task''
      [status_entry ''on_task'', status_entry ''off_task'', status_entry ''off_task''] = 1"
    "count_status ''off_task''
      [status_entry ''on_task'', status_entry ''off_task'', status_entry ''off_task''] = 2"
    by (simp_all add: count_status_def status_entry_def dict_get_def)
  have "fl (333 / 10) \<noteq> 100 / 3"
    by code_simp
  moreover have "fl (333 / 10) \<noteq> fl (fl (1 / 3) * fl 100)"
    by code_simp
  ultimately show ?thesis
    unfolding score_build_summary c using round_score_1_of_3
    by (simp add: exact_value_float_of fmul_def float_of_eq_iff)
qed

subsection \<open>The ranking\<close>

























end
